theory Spec2Isabelle
  imports Complex_Main
begin

section \<open>MapNav: visit tracking, route fallback and search suggestions\<close>

text \<open>
  A shallow embedding of three parts of the MapNav sources:
  \<^item> the visit-event endpoint \<open>POST\<close> of \<open>src/app/api/user-visits/route.ts\<close>, over the
    schema of \<open>src/models/UserVisit.ts\<close>;
  \<^item> the route pipeline \<open>getRoute\<close> / \<open>getWalkingRoute\<close> of \<open>src/app/page.tsx\<close>;
  \<^item> the suggestion pipeline \<open>handleInputChange\<close> / \<open>getSuggestions\<close> and the
    recent-search list \<open>saveRecentSearch\<close> of \<open>src/app/page.tsx\<close>.

  Conventions. A JavaScript string is a \<open>string\<close>; a character stands for one code unit
  (the Latin-1 range). A \<open>Date\<close> is its value in milliseconds (\<open>getTime()\<close>) as an
  \<open>int\<close>. A JavaScript number that the code only stores is a \<open>real\<close>; the numbers
  the route pipeline computes with are IEEE doubles (type \<open>number\<close>). An absent
  (\<open>undefined\<close> or \<open>null\<close>) property is \<open>None\<close>. A thrown exception is \<open>Inl\<close> of a
  sum.
\<close>

subsection \<open>JavaScript helpers\<close>

text \<open>White space removed by \<open>String.prototype.trim\<close>, in the Latin-1 range:
  TAB, LF, VT, FF, CR, SPACE and NBSP.\<close>

definition is_js_space :: "char \<Rightarrow> bool" where
  "is_js_space c = (of_char c \<in> {9, 10, 11, 12, 13, 32, 160 :: nat})"

definition trim :: "string \<Rightarrow> string" where
  "trim s = rev (dropWhile is_js_space (rev (dropWhile is_js_space s)))"

text \<open>\<open>s.startsWith(p)\<close>.\<close>

definition startsWith :: "string \<Rightarrow> string \<Rightarrow> bool" where
  "startsWith s p = (take (length p) s = p)"

text \<open>Truthiness of a value that is absent or a string: the empty string is falsy.\<close>

fun truthy_string :: "string option \<Rightarrow> bool" where
  "truthy_string None = False"
| "truthy_string (Some s) = (s \<noteq> [])"

text \<open>\<open>x || d\<close> on such a value.\<close>

definition or_default :: "string option \<Rightarrow> string \<Rightarrow> string" where
  "or_default x d = (case x of Some s \<Rightarrow> (if s = [] then d else s) | None \<Rightarrow> d)"

text \<open>
  The outcome of an awaited \<open>fetch\<close> followed by \<open>response.json()\<close>: the promise
  rejects (a transport failure, or the abort raised by the timeout), or a response
  arrives with its \<open>ok\<close> flag (status 2xx) and a body that is \<open>None\<close> when it is not
  JSON (then \<open>response.json()\<close> throws).
\<close>

datatype 'a fetch_outcome =
    NetworkError
  | Aborted
  | HttpResponse (ok: bool) (json: "'a option")

datatype js_error =
  TypeError | SyntaxError | ValidationError | AbortError | HttpError | NoRouteError

subsection \<open>The visit schema (\<open>src/models/UserVisit.ts\<close>)\<close>

text \<open>A location as it arrives in an event. The \<open>timestamp\<close> the client sends is
  overwritten by the handler's \<open>{...data.location, timestamp: new Date()}\<close>, so it is
  not a field here.\<close>

record LocationInput =
  latitude :: real
  longitude :: real
  accuracy :: "real option"
  altitude :: "real option"
  altitudeAccuracy :: "real option"
  heading :: "real option"
  speed :: "real option"

record LocationData = LocationInput +
  timestamp :: int

record NetworkInfo =
  effectiveType :: "string option"
  downlink :: "real option"
  rtt :: "real option"
  saveData :: "bool option"

record DeviceInfo =
  userAgent :: string
  language :: string
  platform :: string
  screenResolution :: string
  windowSize :: string
  timezone :: string
  cookieEnabled :: bool
  onlineStatus :: bool

text \<open>The \<open>data\<close> object of an event; each event type reads its own properties.\<close>

record EventData =
  deviceInfo :: "DeviceInfo option"
  networkInfo :: "NetworkInfo option"
  granted :: "bool option"
  location :: "LocationInput option"
  searchQuery :: "string option"
  savedLocation :: "bool option"

text \<open>The parsed request body \<open>{ sessionId, type, data }\<close>. A body without \<open>type\<close>
  behaves as one whose \<open>type\<close> matches no branch, for instance the empty string.\<close>

record Body =
  sessionId :: "string option"
  type :: string
  data :: "EventData option"

text \<open>The request: its headers, and its body, \<open>None\<close> when \<open>request.json()\<close> throws.\<close>

record Request =
  headers :: "string \<rightharpoonup> string"
  body :: "Body option"

text \<open>The stored document. \<open>ident\<close> is Mongoose's \<open>_id\<close>; \<open>createdAt\<close> and
  \<open>updatedAt\<close> come from the schema option \<open>timestamps: true\<close>.
  \<open>locationPermissionGranted\<close> is \<open>None\<close> only after an event assigned it an absent
  \<open>data.granted\<close>.\<close>

record UserVisit =
  ident :: nat
  sessionId :: string
  ipAddress :: "string option"
  userAgent :: string
  firstVisit :: int
  lastActivity :: int
  totalDuration :: int
  locations :: "LocationData list"
  currentLocation :: "LocationData option"
  locationPermissionGranted :: "bool option"
  locationPermissionTime :: "int option"
  deviceInfo :: DeviceInfo
  networkInfo :: "NetworkInfo option"
  pageViews :: nat
  interactionCount :: nat
  searchQueries :: "string list"
  savedLocationsCount :: nat
  city :: "string option"
  country :: "string option"
  region :: "string option"
  createdAt :: int
  updatedAt :: int

text \<open>The collection: \<open>sessionId\<close> is declared \<open>unique\<close>, so it is a map from the
  session id to the document, and \<open>UserVisit.findOne({ sessionId })\<close> is a lookup.\<close>

type_synonym store = "string \<rightharpoonup> UserVisit"

text \<open>The JSON value the geo service answers with, as far as the code reads it:
  \<open>null\<close>, on which a property read throws, or a value with the properties \<open>city\<close>,
  \<open>country_name\<close> and \<open>region\<close>, each a string or absent.\<close>

datatype ipapi_json =
    JsonNull
  | JsonObject (j_city: "string option") (j_country_name: "string option")
      (j_region: "string option")

text \<open>What one run of the handler gets from outside: the \<open>k\<close>-th evaluation of
  \<open>new Date()\<close> (or of the schema default \<open>Date.now\<close>) during the run, the \<open>_id\<close>
  Mongoose gives a new document, and the outcome of the request to the geo service,
  should the handler make it.\<close>

record Env =
  clock :: "nat \<Rightarrow> int"
  freshId :: nat
  geoFetch :: "ipapi_json fetch_outcome"

record Geo =
  g_city :: string
  g_country :: string
  g_region :: string

record Response =
  status :: nat
  success :: bool
  error :: "string option"
  data_sessionId :: "string option"
  data_id :: "nat option"

subsection \<open>\<open>getClientIP\<close> and \<open>getGeographicData\<close> (\<open>route.ts\<close>, lines 7-39)\<close>

definition getClientIP :: "(string \<rightharpoonup> string) \<Rightarrow> string" where
  "getClientIP hs =
     (if truthy_string (hs ''x-forwarded-for'')
      then trim (takeWhile (\<lambda>c. c \<noteq> CHR '','') (the (hs ''x-forwarded-for'')))
      else if truthy_string (hs ''x-real-ip'') then the (hs ''x-real-ip'')
      else if truthy_string (hs ''cf-connecting-ip'') then the (hs ''cf-connecting-ip'')
      else ''unknown'')"

definition unknownGeo :: Geo where
  "unknownGeo = \<lparr>g_city = ''Unknown'', g_country = ''Unknown'', g_region = ''Unknown''\<rparr>"

text \<open>The body of the \<open>try\<close> block: \<open>fetch\<close>, \<open>response.json()\<close>, and the three
  property reads, which throw a \<open>TypeError\<close> when the JSON value is \<open>null\<close>. The
  response's status is not looked at.\<close>

fun geoLookup :: "ipapi_json fetch_outcome \<Rightarrow> js_error + Geo" where
  "geoLookup NetworkError = Inl TypeError"
| "geoLookup Aborted = Inl AbortError"
| "geoLookup (HttpResponse _ None) = Inl SyntaxError"
| "geoLookup (HttpResponse _ (Some JsonNull)) = Inl TypeError"
| "geoLookup (HttpResponse _ (Some (JsonObject c n r))) =
     Inr \<lparr>g_city = or_default c ''Unknown'', g_country = or_default n ''Unknown'',
          g_region = or_default r ''Unknown''\<rparr>"

text \<open>\<open>getGeographicData(ip)\<close>: the list of URLs it fetched, and the record it
  returns. The \<open>catch\<close> turns every exception into the all-Unknown record. The
  \<open>fetch\<close> is taken to settle.\<close>

definition getGeographicData :: "string \<Rightarrow> ipapi_json fetch_outcome \<Rightarrow> string list \<times> Geo" where
  "getGeographicData ip outcome =
     (if ip = ''unknown'' \<or> startsWith ip ''192.168.'' \<or> startsWith ip ''127.''
      then ([], unknownGeo)
      else ([''http://ipapi.co/'' @ ip @ ''/json/''],
            (case geoLookup outcome of Inr g \<Rightarrow> g | Inl _ \<Rightarrow> unknownGeo)))"

subsection \<open>The endpoint \<open>POST\<close> (\<open>route.ts\<close>, lines 42-149)\<close>

text \<open>Mongoose's validation of a new document at \<open>save()\<close>. The handler always
  supplies \<open>sessionId\<close> (checked truthy) and \<open>userAgent\<close> (defaulted to
  \<open>'Unknown'\<close>); \<open>deviceInfo\<close> is \<open>required\<close> and so is each of its properties, and a
  required string must not be empty.\<close>

definition validDeviceInfo :: "DeviceInfo \<Rightarrow> bool" where
  "validDeviceInfo d =
     (DeviceInfo.userAgent d \<noteq> [] \<and> language d \<noteq> [] \<and> platform d \<noteq> [] \<and>
      screenResolution d \<noteq> [] \<and> windowSize d \<noteq> [] \<and> timezone d \<noteq> [])"

text \<open>\<open>new UserVisit({ sessionId, ipAddress, userAgent, deviceInfo, networkInfo,
  ...geoData })\<close> followed by \<open>save()\<close>, with the schema defaults.\<close>

definition createVisit ::
  "Env \<Rightarrow> string \<Rightarrow> string \<Rightarrow> string \<Rightarrow> EventData \<Rightarrow> Geo \<Rightarrow> js_error + UserVisit" where
  "createVisit e sid ip ua d geo =
     (case EventData.deviceInfo d of
        None \<Rightarrow> Inl ValidationError
      | Some di \<Rightarrow>
          if \<not> validDeviceInfo di then Inl ValidationError
          else Inr \<lparr>ident = freshId e, sessionId = sid, ipAddress = Some ip, userAgent = ua,
                 firstVisit = clock e 0, lastActivity = clock e 1, totalDuration = 0,
                 locations = [], currentLocation = None,
                 locationPermissionGranted = Some False, locationPermissionTime = None,
                 deviceInfo = di, networkInfo = EventData.networkInfo d,
                 pageViews = 1, interactionCount = 0, searchQueries = [],
                 savedLocationsCount = 0,
                 city = Some (g_city geo), country = Some (g_country geo),
                 region = Some (g_region geo),
                 createdAt = clock e 2, updatedAt = clock e 2\<rparr>)"

text \<open>\<open>{ ...data.location, timestamp: new Date() }\<close>.\<close>

definition stamp :: "LocationInput \<Rightarrow> int \<Rightarrow> LocationData" where
  "stamp l t = LocationInput.extend l (LocationData.fields t)"

text \<open>The \<open>location_permission\<close> branch on an existing document.\<close>

definition onLocationPermission :: "Env \<Rightarrow> EventData \<Rightarrow> UserVisit \<Rightarrow> UserVisit" where
  "onLocationPermission e d v =
     (let v1 = v\<lparr>locationPermissionGranted := granted d,
                 locationPermissionTime := Some (clock e 0),
                 lastActivity := clock e 1\<rparr>
      in if granted d = Some True \<and> location d \<noteq> None
         then (let currentLoc = stamp (the (location d)) (clock e 2)
               in v1\<lparr>currentLocation := Some currentLoc,
                     locations := locations v1 @ [currentLoc],
                     updatedAt := clock e 3\<rparr>)
         else v1\<lparr>updatedAt := clock e 2\<rparr>)"

text \<open>The \<open>location_update\<close> branch on an existing document and a present
  \<open>data.location\<close>.\<close>

definition onLocationUpdate :: "Env \<Rightarrow> LocationInput \<Rightarrow> UserVisit \<Rightarrow> UserVisit" where
  "onLocationUpdate e l v =
     (let newLocation = stamp l (clock e 0)
      in v\<lparr>currentLocation := Some newLocation,
            locations := locations v @ [newLocation],
            lastActivity := clock e 1,
            totalDuration := (clock e 2 - firstVisit v) div 1000,
            updatedAt := clock e 3\<rparr>)"

text \<open>The \<open>interaction\<close> branch on an existing document.\<close>

definition onInteraction :: "Env \<Rightarrow> EventData \<Rightarrow> UserVisit \<Rightarrow> UserVisit" where
  "onInteraction e d v =
     (let v1 = v\<lparr>interactionCount := interactionCount v + 1, lastActivity := clock e 0\<rparr>;
          v2 = (if truthy_string (searchQuery d)
                then v1\<lparr>searchQueries := searchQueries v1 @ [the (searchQuery d)]\<rparr>
                else v1);
          v3 = (if savedLocation d = Some True
                then v2\<lparr>savedLocationsCount := savedLocationsCount v2 + 1\<rparr>
                else v2)
      in v3\<lparr>totalDuration := (clock e 1 - firstVisit v3) div 1000,
             updatedAt := clock e 2\<rparr>)"

text \<open>
  The part of the \<open>try\<close> block after the \<open>sessionId\<close> check: the document the
  response reports, and the store after the run. Reading a property of an absent
  \<open>data\<close> throws a \<open>TypeError\<close>; a document changed in memory reaches the store only
  at \<open>save()\<close>.
\<close>

definition handleEvent ::
  "Env \<Rightarrow> Request \<Rightarrow> Body \<Rightarrow> string \<Rightarrow> store \<Rightarrow> js_error + (UserVisit option \<times> store)" where
  "handleEvent e req b sid st =
     (let userAgent = or_default (headers req ''user-agent'') ''Unknown'';
          clientIP = getClientIP (headers req);
          userVisit = st sid
      in if type b = ''initial_visit'' then
           (case userVisit of
              Some v \<Rightarrow> Inr (Some v, st)
            | None \<Rightarrow>
                (let geoData = snd (getGeographicData clientIP (geoFetch e))
                 in case data b of
                      None \<Rightarrow> Inl TypeError
                    | Some d \<Rightarrow>
                        (case createVisit e sid clientIP userAgent d geoData of
                           Inl err \<Rightarrow> Inl err
                         | Inr v \<Rightarrow> Inr (Some v, st(sid \<mapsto> v)))))
         else if type b = ''location_permission'' then
           (case userVisit of
              None \<Rightarrow> Inr (None, st)
            | Some v \<Rightarrow>
                (case data b of
                   None \<Rightarrow> Inl TypeError
                 | Some d \<Rightarrow>
                     (let v' = onLocationPermission e d v in Inr (Some v', st(sid \<mapsto> v')))))
         else if type b = ''location_update'' then
           (case userVisit of
              None \<Rightarrow> Inr (None, st)
            | Some v \<Rightarrow>
                (case data b of
                   None \<Rightarrow> Inl TypeError
                 | Some d \<Rightarrow>
                     (case location d of
                        None \<Rightarrow> Inr (Some v, st)
                      | Some l \<Rightarrow>
                          (let v' = onLocationUpdate e l v in Inr (Some v', st(sid \<mapsto> v'))))))
         else if type b = ''interaction'' then
           (case userVisit of
              None \<Rightarrow> Inr (None, st)
            | Some v \<Rightarrow>
                (case data b of
                   None \<Rightarrow> Inl TypeError
                 | Some d \<Rightarrow>
                     (let v' = onInteraction e d v in Inr (Some v', st(sid \<mapsto> v')))))
         else Inr (userVisit, st))"

definition badRequest :: Response where
  "badRequest = \<lparr>status = 400, success = False, error = Some ''Session ID is required'',
                  data_sessionId = None, data_id = None\<rparr>"

definition serverError :: Response where
  "serverError = \<lparr>status = 500, success = False, error = Some ''Server error'',
                   data_sessionId = None, data_id = None\<rparr>"

definition okResponse :: "UserVisit option \<Rightarrow> Response" where
  "okResponse uv = \<lparr>status = 200, success = True, error = None,
                     data_sessionId = map_option sessionId uv,
                     data_id = map_option ident uv\<rparr>"

text \<open>\<open>POST(request)\<close>: the response and the store after the run. The database
  connection (\<open>dbConnect\<close>) is taken to be up.\<close>

definition POST :: "Env \<Rightarrow> Request \<Rightarrow> store \<Rightarrow> Response \<times> store" where
  "POST e req st =
     (case body req of
        None \<Rightarrow> (serverError, st)
      | Some b \<Rightarrow>
          if \<not> truthy_string (Body.sessionId b) then (badRequest, st)
          else (case handleEvent e req b (the (Body.sessionId b)) st of
                  Inl _ \<Rightarrow> (serverError, st)
                | Inr (uv, st') \<Rightarrow> (okResponse uv, st')))"

section \<open>The page (\<open>src/app/page.tsx\<close>)\<close>

subsection \<open>Numbers\<close>

text \<open>
  The route pipeline computes with its numbers, so they are IEEE 754 doubles here:
  \<open>NaN\<close>, or a finite double, written as the real number it denotes. The result
  of an arithmetic operation on finite doubles is the exact result rounded to the
  nearest double, ties to even (\<open>rnd\<close>, with 53 significant bits and the least
  exponent -1022). The infinities and the sign of zero are not modelled: on the
  modelled paths they could only come from an overflow (a magnitude of 2 to the power
  1024 or more) or from a division by zero, and every divisor there is a non-zero
  literal.
\<close>

datatype number = NaN | Num real

text \<open>The exponent of the binade of \<open>x\<close>, the integer nearest to \<open>y\<close> with ties to
  even, and the double nearest to \<open>x\<close>.\<close>

definition binade :: "real \<Rightarrow> int" where
  "binade x = max \<lfloor>log 2 \<bar>x\<bar>\<rfloor> (- 1022)"

definition rne :: "real \<Rightarrow> int" where
  "rne y =
     (let n = \<lfloor>y\<rfloor>
      in if y - of_int n < 1 / 2 then n
         else if 1 / 2 < y - of_int n then n + 1
         else if even n then n else n + 1)"

definition rnd :: "real \<Rightarrow> real" where
  "rnd x =
     (if x = 0 then 0
      else of_int (rne (x / 2 powr (of_int (binade x) - 52))) *
           2 powr (of_int (binade x) - 52))"

text \<open>The operators \<open>*\<close>, \<open>+\<close>, \<open>-\<close> and \<open>/\<close>: \<open>NaN\<close> if an operand is. A zero
  divisor does not occur in the modelled code; \<open>0 / 0\<close> is \<open>NaN\<close>, and the infinity
  of another dividend is not modelled.\<close>

fun js_mul :: "number \<Rightarrow> number \<Rightarrow> number" where
  "js_mul (Num a) (Num b) = Num (rnd (a * b))"
| "js_mul _ _ = NaN"

fun js_add :: "number \<Rightarrow> number \<Rightarrow> number" where
  "js_add (Num a) (Num b) = Num (rnd (a + b))"
| "js_add _ _ = NaN"

fun js_sub :: "number \<Rightarrow> number \<Rightarrow> number" where
  "js_sub (Num a) (Num b) = Num (rnd (a - b))"
| "js_sub _ _ = NaN"

fun js_div :: "number \<Rightarrow> number \<Rightarrow> number" where
  "js_div (Num a) (Num b) = (if b = 0 then NaN else Num (rnd (a / b)))"
| "js_div _ _ = NaN"

text \<open>A decimal literal of the source stands for the double nearest to it. The
  literals \<open>6371e3\<close>, \<open>180\<close>, \<open>2\<close> and \<open>1\<close> are doubles and are written \<open>Num\<close>;
  \<open>1.4\<close> and \<open>13.89\<close> are not.\<close>

definition lit :: "real \<Rightarrow> number" where
  "lit x = Num (rnd x)"

text \<open>\<open>Math.PI\<close> is the double nearest to \<open>\<pi>\<close>: 884279719003555 divided by 2 to the
  power 48.\<close>

definition Math_PI :: number where
  "Math_PI = Num (884279719003555 / 281474976710656)"

text \<open>
  \<open>Math.sin\<close>, \<open>Math.cos\<close>, \<open>Math.atan2\<close> and \<open>Math.sqrt\<close> are
  implementation-approximated: the language fixes their value at \<open>NaN\<close> (it is
  \<open>NaN\<close>) and the value of \<open>Math.sqrt\<close> below zero (\<open>NaN\<close> too), and leaves the
  values at the other finite doubles to the engine. The engine's functions on finite
  doubles are a parameter of the model.
\<close>

record Math =
  m_sin :: "real \<Rightarrow> real"
  m_cos :: "real \<Rightarrow> real"
  m_atan2 :: "real \<Rightarrow> real \<Rightarrow> real"
  m_sqrt :: "real \<Rightarrow> real"

fun Math_sin :: "Math \<Rightarrow> number \<Rightarrow> number" where
  "Math_sin M (Num x) = Num (m_sin M x)"
| "Math_sin M NaN = NaN"

fun Math_cos :: "Math \<Rightarrow> number \<Rightarrow> number" where
  "Math_cos M (Num x) = Num (m_cos M x)"
| "Math_cos M NaN = NaN"

fun Math_atan2 :: "Math \<Rightarrow> number \<Rightarrow> number \<Rightarrow> number" where
  "Math_atan2 M (Num y) (Num x) = Num (m_atan2 M y x)"
| "Math_atan2 M _ _ = NaN"

fun Math_sqrt :: "Math \<Rightarrow> number \<Rightarrow> number" where
  "Math_sqrt M (Num x) = (if x < 0 then NaN else Num (m_sqrt M x))"
| "Math_sqrt M NaN = NaN"

subsection \<open>Types and state\<close>

record Point =
  longitude :: number
  latitude :: number

record RouteInfo =
  duration :: number
  distance :: number

record SearchSuggestion =
  place_id :: string
  display_name :: string
  lat :: string
  lon :: string
  importance :: real

datatype route_type = road | walking

text \<open>A Leaflet coordinate \<open>[lat, lng]\<close> is a pair, latitude first.\<close>

type_synonym LatLng = "number \<times> number"

text \<open>The \<open>useState\<close> variables the modelled functions read or write, and the
  browser's \<open>localStorage\<close>; a stored list stands for its \<open>JSON.stringify\<close> text.\<close>

record PageState =
  startPoint :: "Point option"
  endPoint :: "Point option"
  routeCoordinates :: "LatLng list option"
  routeInfo :: "RouteInfo option"
  searchQuery :: string
  searchSuggestions :: "SearchSuggestion list"
  showSuggestions :: bool
  isSearching :: bool
  isCalculatingRoute :: bool
  recentSearches :: "string list"
  routeType :: route_type
  routeError :: "string option"
  localStorage :: "string \<rightharpoonup> string list"

subsection \<open>Distances (lines 260-292)\<close>

text \<open>\<open>calculateDistance\<close>, operation by operation, in the order and grouping of the
  source.\<close>

definition calculateDistance :: "Math \<Rightarrow> Point \<Rightarrow> Point \<Rightarrow> number" where
  "calculateDistance M point1 point2 =
     (let R = Num 6371000;
          phi1 = js_div (js_mul (latitude point1) Math_PI) (Num 180);
          phi2 = js_div (js_mul (latitude point2) Math_PI) (Num 180);
          dphi = js_div (js_mul (js_sub (latitude point2) (latitude point1)) Math_PI)
                   (Num 180);
          dlam = js_div (js_mul (js_sub (longitude point2) (longitude point1)) Math_PI)
                   (Num 180);
          a = js_add
                (js_mul (Math_sin M (js_div dphi (Num 2))) (Math_sin M (js_div dphi (Num 2))))
                (js_mul
                   (js_mul (js_mul (Math_cos M phi1) (Math_cos M phi2))
                      (Math_sin M (js_div dlam (Num 2))))
                   (Math_sin M (js_div dlam (Num 2))));
          c = js_mul (Num 2) (Math_atan2 M (Math_sqrt M a) (Math_sqrt M (js_sub (Num 1) a)))
      in js_mul R c)"

text \<open>The object \<open>{ coordinates, distance, duration }\<close> that
  \<open>createDirectWalkingRoute\<close> and \<open>getWalkingRoute\<close> return.\<close>

record Route =
  coordinates :: "LatLng list"
  distance :: number
  duration :: number

definition createDirectWalkingRoute :: "Math \<Rightarrow> Point \<Rightarrow> Point \<Rightarrow> Route" where
  "createDirectWalkingRoute M start end' =
     (let coords = [(latitude start, longitude start), (latitude end', longitude end')];
          dist = calculateDistance M start end';
          dur = js_div dist (lit 1.4)
      in \<lparr>coordinates = coords, distance = dist, duration = dur\<rparr>)"

subsection \<open>The routing service (lines 295-449)\<close>

text \<open>The JSON the routing service answers with: \<open>routes\<close> may be absent; a route
  has \<open>distance\<close>, \<open>duration\<close> and \<open>geometry.coordinates\<close>, longitude first, absent
  when reading it throws.\<close>

datatype osrm_route =
  OsrmRoute (r_geometry: "(number \<times> number) list option") (r_distance: number)
    (r_duration: number)

datatype osrm_json = OsrmJson (routes: "osrm_route list option")

text \<open>
  The statements both \<open>try\<close> blocks share (lines 305-337 and 371-401): await the
  \<open>fetch\<close>, throw unless \<open>response.ok\<close>, parse the JSON, take the first route and
  swap each coordinate to latitude first, or throw when there is no route.
\<close>

fun fetchOsrmRoute :: "osrm_json fetch_outcome \<Rightarrow> js_error + Route" where
  "fetchOsrmRoute NetworkError = Inl TypeError"
| "fetchOsrmRoute Aborted = Inl AbortError"
| "fetchOsrmRoute (HttpResponse False _) = Inl HttpError"
| "fetchOsrmRoute (HttpResponse True None) = Inl SyntaxError"
| "fetchOsrmRoute (HttpResponse True (Some (OsrmJson None))) = Inl NoRouteError"
| "fetchOsrmRoute (HttpResponse True (Some (OsrmJson (Some [])))) = Inl NoRouteError"
| "fetchOsrmRoute (HttpResponse True (Some (OsrmJson (Some (r # _))))) =
     (case r_geometry r of
        None \<Rightarrow> Inl TypeError
      | Some cs \<Rightarrow>
          Inr \<lparr>coordinates = map (\<lambda>coord. (snd coord, fst coord)) cs,
               distance = r_distance r, duration = r_duration r\<rparr>)"

definition getWalkingRoute ::
  "Math \<Rightarrow> Point \<Rightarrow> Point \<Rightarrow> osrm_json fetch_outcome \<Rightarrow> Route" where
  "getWalkingRoute M start end' outcome =
     (case fetchOsrmRoute outcome of
        Inr r \<Rightarrow> r
      | Inl _ \<Rightarrow> createDirectWalkingRoute M start end')"

text \<open>\<open>getRoute\<close>, run to completion with the outcome of the one request it makes.
  The \<open>catch\<close> of the road branch repeats the operations of \<open>calculateDistance\<close>
  (lines 428-439).\<close>

definition getRoute :: "Math \<Rightarrow> osrm_json fetch_outcome \<Rightarrow> PageState \<Rightarrow> PageState" where
  "getRoute M outcome s =
     (case (startPoint s, endPoint s) of
        (Some sp, Some ep) \<Rightarrow>
          (let s1 = s\<lparr>isCalculatingRoute := True, routeError := None\<rparr>
           in if routeType s = road then
                (case fetchOsrmRoute outcome of
                   Inr r \<Rightarrow>
                     s1\<lparr>routeCoordinates := Some (coordinates r),
                        routeInfo := Some \<lparr>RouteInfo.duration = duration r,
                                           RouteInfo.distance = distance r\<rparr>,
                        isCalculatingRoute := False\<rparr>
                 | Inl _ \<Rightarrow>
                     (let R = Num 6371000;
                          phi1 = js_div (js_mul (latitude sp) Math_PI) (Num 180);
                          phi2 = js_div (js_mul (latitude ep) Math_PI) (Num 180);
                          dphi = js_div (js_mul (js_sub (latitude ep) (latitude sp)) Math_PI)
                                   (Num 180);
                          dlam = js_div
                                   (js_mul (js_sub (longitude ep) (longitude sp)) Math_PI)
                                   (Num 180);
                          a = js_add
                                (js_mul (Math_sin M (js_div dphi (Num 2)))
                                   (Math_sin M (js_div dphi (Num 2))))
                                (js_mul
                                   (js_mul (js_mul (Math_cos M phi1) (Math_cos M phi2))
                                      (Math_sin M (js_div dlam (Num 2))))
                                   (Math_sin M (js_div dlam (Num 2))));
                          c = js_mul (Num 2)
                                (Math_atan2 M (Math_sqrt M a) (Math_sqrt M (js_sub (Num 1) a)));
                          dist = js_mul R c;
                          dur = js_div dist (lit 13.89)
                      in s1\<lparr>routeError := Some
                               ''Network error: Unable to calculate route. Showing direct path instead.'',
                            routeCoordinates :=
                              Some [(latitude sp, longitude sp), (latitude ep, longitude ep)],
                            routeInfo := Some \<lparr>RouteInfo.duration = dur,
                                               RouteInfo.distance = dist\<rparr>,
                            isCalculatingRoute := False\<rparr>))
              else
                (let walkingRoute = getWalkingRoute M sp ep outcome
                 in s1\<lparr>routeCoordinates := Some (coordinates walkingRoute),
                       routeInfo := Some \<lparr>RouteInfo.duration = duration walkingRoute,
                                          RouteInfo.distance = distance walkingRoute\<rparr>,
                       isCalculatingRoute := False\<rparr>))
      | _ \<Rightarrow>
          s\<lparr>routeCoordinates := None, routeInfo := None, isCalculatingRoute := False,
            routeError := None\<rparr>)"

subsection \<open>Suggestions (lines 127-170 and 516-523)\<close>

text \<open>
  \<open>getSuggestions(query)\<close> up to its \<open>await fetch\<close>: the state, and the query of the
  request it issues, if any. The request's URL is a function of the query.
\<close>

definition getSuggestions_start :: "string \<Rightarrow> PageState \<Rightarrow> PageState \<times> string option" where
  "getSuggestions_start query s =
     (if trim query = [] \<or> length query < 2
      then (s\<lparr>searchSuggestions := [], showSuggestions := False\<rparr>, None)
      else (s\<lparr>isSearching := True\<rparr>, Some query))"

text \<open>\<open>getSuggestions\<close> from the settled \<open>fetch\<close> on: the \<open>try\<close> block's rest, the
  \<open>catch\<close> and the \<open>finally\<close>. The abort after 8 seconds is the outcome
  \<open>Aborted\<close>.\<close>

fun getSuggestions_settle ::
  "SearchSuggestion list fetch_outcome \<Rightarrow> PageState \<Rightarrow> PageState" where
  "getSuggestions_settle (HttpResponse True (Some d)) s =
     s\<lparr>searchSuggestions := d, showSuggestions := (length d > 0), isSearching := False\<rparr>"
| "getSuggestions_settle _ s =
     s\<lparr>searchSuggestions := [], showSuggestions := False, isSearching := False\<rparr>"

text \<open>
  The page between events. \<open>timers\<close> holds the values captured by the pending
  \<open>setTimeout\<close> callbacks of \<open>handleInputChange\<close>, oldest first (all have the same
  delay, so they fire in this order); \<open>inflight\<close> holds the queries of the requests
  that have not settled.
\<close>

record Browser =
  page :: PageState
  timers :: "string list"
  inflight :: "string list"

datatype event =
    InputChange string
  | TimerFires
  | Settles nat "SearchSuggestion list fetch_outcome"

text \<open>\<open>InputChange v\<close> is \<open>handleInputChange(v)\<close>; \<open>TimerFires\<close> runs the oldest
  pending callback, that is \<open>getSuggestions\<close> up to its \<open>await\<close>; \<open>Settles k r\<close> is
  the \<open>k\<close>-th request in flight settling with \<open>r\<close>, which resumes its
  \<open>getSuggestions\<close>.\<close>

fun step :: "Browser \<Rightarrow> event \<Rightarrow> Browser" where
  "step b (InputChange v) =
     b\<lparr>page := (page b)\<lparr>searchQuery := v\<rparr>, timers := timers b @ [v]\<rparr>"
| "step b TimerFires =
     (case timers b of
        [] \<Rightarrow> b
      | q # ts \<Rightarrow>
          (case getSuggestions_start q (page b) of
             (p, None) \<Rightarrow> b\<lparr>page := p, timers := ts\<rparr>
           | (p, Some u) \<Rightarrow> b\<lparr>page := p, timers := ts, inflight := inflight b @ [u]\<rparr>))"
| "step b (Settles k r) =
     (if k < length (inflight b)
      then b\<lparr>page := getSuggestions_settle r (page b),
             inflight := take k (inflight b) @ drop (Suc k) (inflight b)\<rparr>
      else b)"

definition run :: "Browser \<Rightarrow> event list \<Rightarrow> Browser" where
  "run b evs = foldl step b evs"

subsection \<open>Recent searches (lines 173-179)\<close>

text \<open>\<open>saveRecentSearch(query)\<close>. It runs in the browser, where
  \<open>typeof window !== 'undefined'\<close> holds.\<close>

definition saveRecentSearch :: "string \<Rightarrow> PageState \<Rightarrow> PageState" where
  "saveRecentSearch query s =
     (let updated = take 5 (query # filter (\<lambda>x. x \<noteq> query) (recentSearches s))
      in s\<lparr>recentSearches := updated,
            localStorage := (localStorage s)(''recentSearches'' \<mapsto> updated)\<rparr>)"

section \<open>Notions of the specification\<close>

text \<open>The haversine formula as the specification names it, over the real numbers:
  with \<open>hav t = sin\<^sup>2 (t / 2)\<close>, the great-circle distance on a sphere of radius \<open>R\<close>
  between two points given by latitude and longitude in degrees is
  \<open>2 R arcsin (sqrt (hav (\<phi>2 - \<phi>1) + cos \<phi>1 cos \<phi>2 hav (\<lambda>2 - \<lambda>1)))\<close>, the angles in
  radians.\<close>

definition hav :: "real \<Rightarrow> real" where
  "hav t = (sin (t / 2))\<^sup>2"

definition radians :: "real \<Rightarrow> real" where
  "radians d = d * pi / 180"

definition spec_haversine :: "real \<Rightarrow> real \<times> real \<Rightarrow> real \<times> real \<Rightarrow> real" where
  "spec_haversine R p q =
     (let phi1 = radians (fst p); phi2 = radians (fst q);
          lam1 = radians (snd p); lam2 = radians (snd q)
      in 2 * R * arcsin (sqrt (hav (phi2 - phi1) + cos phi1 * cos phi2 * hav (lam2 - lam1))))"

text \<open>The failures of the routing call the specification lists: a transport failure,
  the timeout, a response that is not 2xx, and a 2xx answer with no candidate
  route.\<close>

fun spec_routing_failed :: "osrm_json fetch_outcome \<Rightarrow> bool" where
  "spec_routing_failed NetworkError = True"
| "spec_routing_failed Aborted = True"
| "spec_routing_failed (HttpResponse False _) = True"
| "spec_routing_failed (HttpResponse True (Some (OsrmJson None))) = True"
| "spec_routing_failed (HttpResponse True (Some (OsrmJson (Some [])))) = True"
| "spec_routing_failed (HttpResponse True _) = False"

text \<open>Private and loopback addresses as the specification's words are commonly
  read: the IPv4 blocks 10/8, 172.16/12 and 192.168/16 of RFC 1918, the loopback
  block 127/8, and the IPv6 loopback \<open>::1\<close>.\<close>

definition spec_private_or_loopback :: "string \<Rightarrow> bool" where
  "spec_private_or_loopback ip =
     (ip = ''::1'' \<or>
      list_ex (startsWith ip)
        ([''10.'', ''192.168.'', ''127.''] @
         map (\<lambda>n. ''172.'' @ n @ ''.'')
           [''16'', ''17'', ''18'', ''19'', ''20'', ''21'', ''22'', ''23'', ''24'', ''25'',
            ''26'', ''27'', ''28'', ''29'', ''30'', ''31'']))"

section \<open>Example inputs\<close>

definition ex_device :: DeviceInfo where
  "ex_device =
     \<lparr>DeviceInfo.userAgent = ''Mozilla/5.0'', language = ''en-US'', platform = ''Linux'',
      screenResolution = ''1920x1080'', windowSize = ''1280x720'', timezone = ''UTC'',
      cookieEnabled = True, onlineStatus = True\<rparr>"

text \<open>A stored session \<open>s1\<close>, first seen at time 1000, and the store that holds it.\<close>

definition ex_visit :: UserVisit where
  "ex_visit =
     \<lparr>ident = 7, sessionId = ''s1'', ipAddress = Some ''unknown'',
      userAgent = ''Mozilla/5.0'', firstVisit = 1000, lastActivity = 1000,
      totalDuration = 0, locations = [], currentLocation = None,
      locationPermissionGranted = Some False, locationPermissionTime = None,
      deviceInfo = ex_device, networkInfo = None, pageViews = 1, interactionCount = 0,
      searchQueries = [], savedLocationsCount = 0, city = Some ''Unknown'',
      country = Some ''Unknown'', region = Some ''Unknown'',
      createdAt = 1000, updatedAt = 1000\<rparr>"

definition ex_store :: store where
  "ex_store = Map.empty(''s1'' \<mapsto> ex_visit)"

text \<open>A run whose clock reads \<open>t\<close>, \<open>t + 10\<close>, \<open>t + 20\<close>, ...\<close>

definition ex_env :: "int \<Rightarrow> Env" where
  "ex_env t = \<lparr>clock = (\<lambda>k. t + 10 * int k), freshId = 8, geoFetch = NetworkError\<rparr>"

definition ex_data :: EventData where
  "ex_data =
     \<lparr>EventData.deviceInfo = Some ex_device, EventData.networkInfo = None, granted = None,
      location = None, EventData.searchQuery = None, savedLocation = None\<rparr>"

definition ex_location :: LocationInput where
  "ex_location =
     \<lparr>LocationInput.latitude = 28.6139, LocationInput.longitude = 77.2090,
      accuracy = Some 12, altitude = None, altitudeAccuracy = None, heading = None,
      speed = None\<rparr>"

definition ex_body :: "string option \<Rightarrow> string \<Rightarrow> EventData \<Rightarrow> Body" where
  "ex_body sid ty d = \<lparr>Body.sessionId = sid, type = ty, data = Some d\<rparr>"

definition ex_request :: "string option \<Rightarrow> string \<Rightarrow> EventData \<Rightarrow> Request" where
  "ex_request sid ty d = \<lparr>headers = Map.empty, body = Some (ex_body sid ty d)\<rparr>"

text \<open>The page as it is first rendered, and the browser with nothing pending.\<close>

definition page0 :: PageState where
  "page0 =
     \<lparr>startPoint = None, endPoint = None, routeCoordinates = None, routeInfo = None,
      searchQuery = [], searchSuggestions = [], showSuggestions = False,
      isSearching = False, isCalculatingRoute = False, recentSearches = [],
      routeType = road, routeError = None, localStorage = Map.empty\<rparr>"

definition browser0 :: Browser where
  "browser0 = \<lparr>page = page0, timers = [], inflight = []\<rparr>"

definition sug :: "string \<Rightarrow> SearchSuggestion" where
  "sug n = \<lparr>place_id = n, display_name = n, lat = ''0'', lon = ''0'', importance = 1\<rparr>"

text \<open>Two antipodal points, 8 N 0 E and 8 S 180 E, and a page that routes between
  them.\<close>

definition ex_start :: Point where
  "ex_start = \<lparr>longitude = Num 0, latitude = Num 8\<rparr>"

definition ex_end :: Point where
  "ex_end = \<lparr>longitude = Num 180, latitude = Num (- 8)\<rparr>"

definition ex_page :: "route_type \<Rightarrow> PageState" where
  "ex_page m = page0\<lparr>startPoint := Some ex_start, endPoint := Some ex_end, routeType := m\<rparr>"

text \<open>The angle of the point \<open>(x, y)\<close>, which \<open>Math.atan2(y, x)\<close> approximates.\<close>

definition atan2 :: "real \<Rightarrow> real \<Rightarrow> real" where
  "atan2 y x =
     (if 0 < x then arctan (y / x)
      else if x < 0 then (if 0 \<le> y then arctan (y / x) + pi else arctan (y / x) - pi)
      else if 0 < y then pi / 2
      else if y < 0 then - (pi / 2)
      else 0)"

text \<open>A \<open>Math\<close> library that rounds correctly: each function returns the double
  nearest to the exact value.\<close>

definition ex_math :: Math where
  "ex_math =
     \<lparr>m_sin = (\<lambda>x. rnd (sin x)),
      m_cos = (\<lambda>x. rnd (cos x)),
      m_atan2 = (\<lambda>y x. rnd (atan2 y x)),
      m_sqrt = (\<lambda>x. rnd (sqrt x))\<rparr>"

section \<open>The visit endpoint: properties\<close>

subsection \<open>Auxiliary facts\<close>

lemma POST_cases:
  "POST e req st = (serverError, st) \<or> POST e req st = (badRequest, st) \<or>
   (\<exists>b s uv st'. body req = Some b \<and> Body.sessionId b = Some s \<and> s \<noteq> [] \<and>
      handleEvent e req b s st = Inr (uv, st') \<and> POST e req st = (okResponse uv, st'))"
proof (cases "body req")
  case None
  then show ?thesis by (simp add: POST_def)
next
  case (Some b)
  show ?thesis
  proof (cases "truthy_string (Body.sessionId b)")
    case False
    with Some show ?thesis by (simp add: POST_def)
  next
    case True
    then obtain s where s: "Body.sessionId b = Some s" "s \<noteq> []"
      by (cases "Body.sessionId b") auto
    show ?thesis
    proof (cases "handleEvent e req b s st")
      case (Inl err)
      with Some s show ?thesis by (simp add: POST_def)
    next
      case (Inr r)
      with Some s show ?thesis by (cases r) (simp add: POST_def)
    qed
  qed
qed

lemma handleEvent_other_session:
  assumes "handleEvent e req b s st = Inr (uv, st')" and "s \<noteq> sid"
  shows "st' sid = st sid"
  using assms
  by (auto simp add: handleEvent_def Let_def split: if_splits option.splits sum.splits)

lemma handleEvent_non_permission_store:
  assumes "handleEvent e req b sid st = Inr (uv, st')"
    and "type b \<noteq> ''location_permission''" and "st sid = Some v"
  shows "st' = st \<or> (\<exists>l. st' = st(sid \<mapsto> onLocationUpdate e l v)) \<or>
         (\<exists>d. st' = st(sid \<mapsto> onInteraction e d v))"
  using assms
  by (auto simp add: handleEvent_def Let_def split: if_splits option.splits)

lemma onLocationUpdate_permission_time:
  "locationPermissionTime (onLocationUpdate e l v) = locationPermissionTime v"
  by (simp add: onLocationUpdate_def Let_def)

lemma onInteraction_permission_time:
  "locationPermissionTime (onInteraction e d v) = locationPermissionTime v"
  by (simp add: onInteraction_def Let_def)

lemma handleEvent_keeps_permission_time:
  assumes "handleEvent e req b sid st = Inr (uv, st')"
    and "type b \<noteq> ''location_permission''" and "st sid = Some v"
  shows "map_option locationPermissionTime (st' sid) = Some (locationPermissionTime v)"
  using handleEvent_non_permission_store [OF assms] assms(3)
  by (auto simp add: onLocationUpdate_permission_time onInteraction_permission_time)

subsection \<open>Session creation\<close>

text \<open>A first \<open>initial_visit\<close> event with a valid \<open>deviceInfo\<close> creates the document:
  \<open>firstVisit\<close> is the first clock reading of the run, the duration is 0 and no
  permission time is set.\<close>

lemma initial_visit_creates:
  assumes "body req = Some b" and "Body.sessionId b = Some sid" and "sid \<noteq> []"
    and "type b = ''initial_visit''" and "st sid = None"
    and "data b = Some d" and "EventData.deviceInfo d = Some di" and "validDeviceInfo di"
  shows "map_option sessionId (snd (POST e req st) sid) = Some sid \<and>
         map_option firstVisit (snd (POST e req st) sid) = Some (clock e 0) \<and>
         map_option totalDuration (snd (POST e req st) sid) = Some 0 \<and>
         map_option locationPermissionTime (snd (POST e req st) sid) = Some None \<and>
         fst (POST e req st) = okResponse (snd (POST e req st) sid)"
  using assms by (simp add: POST_def handleEvent_def createVisit_def Let_def)

lemma handleEvent_initial_visit_error:
  assumes "type b = ''initial_visit''" and "handleEvent e1 req b sid st = Inl err"
  shows "\<exists>err'. handleEvent e2 req b sid st = Inl err'"
  using assms
  by (auto simp add: handleEvent_def createVisit_def Let_def split: option.splits if_splits)

lemma handleEvent_initial_visit_store:
  assumes "type b = ''initial_visit''" and "handleEvent e req b sid st = Inr (uv, st')"
  shows "st' sid \<noteq> None"
proof (cases "st sid")
  case None
  with assms show ?thesis
    by (auto simp add: handleEvent_def Let_def split: option.splits sum.splits)
next
  case (Some v)
  with assms have "st' = st" by (simp add: handleEvent_def)
  with Some show ?thesis by simp
qed

text \<open>Sending the same \<open>initial_visit\<close> request twice leaves the store as the first
  run left it, from any store and whatever the two runs get from outside.\<close>

lemma initial_visit_twice:
  assumes "body req = Some b" and "type b = ''initial_visit''"
  shows "snd (POST e2 req (snd (POST e1 req st))) = snd (POST e1 req st)"
proof (cases "truthy_string (Body.sessionId b)")
  case False
  with assms show ?thesis by (simp add: POST_def)
next
  case True
  then obtain sid where sid: "Body.sessionId b = Some sid" "sid \<noteq> []"
    by (cases "Body.sessionId b") auto
  show ?thesis
  proof (cases "handleEvent e1 req b sid st")
    case (Inl err)
    from handleEvent_initial_visit_error [OF assms(2) Inl, of e2]
    obtain err' where "handleEvent e2 req b sid st = Inl err'" by blast
    with Inl assms sid show ?thesis by (simp add: POST_def)
  next
    case (Inr r)
    obtain uv st' where r: "r = (uv, st')" by (cases r)
    from handleEvent_initial_visit_store [OF assms(2) Inr [unfolded r]]
    obtain v where v: "st' sid = Some v" by auto
    have first: "snd (POST e1 req st) = st'"
      using Inr r assms sid by (simp add: POST_def)
    have "snd (POST e2 req st') = st'"
      using assms sid v by (simp add: POST_def handleEvent_def)
    with first show ?thesis by simp
  qed
qed

text \<open>
  C1. Session creation is idempotent. When the store already holds a document for
  the session id of an \<open>initial_visit\<close> event, the run leaves the whole store as it
  was: no field of the document is written and no document is added. The response
  is the success response that reports the stored document.
\<close>

theorem initial_visit_idempotent:
  assumes "body req = Some b" and "Body.sessionId b = Some sid"
    and "type b = ''initial_visit''" and "st sid = Some v"
  shows "snd (POST e req st) = st \<and>
         (sid \<noteq> [] \<longrightarrow> fst (POST e req st) = okResponse (Some v))"
  using assms by (simp add: POST_def handleEvent_def)

theorem initial_visit_idempotent_witness:
  "ex_store ''s1'' = Some ex_visit \<and>
   snd (POST (ex_env 5000) (ex_request (Some ''s1'') ''initial_visit'' ex_data) ex_store)
     = ex_store \<and>
   fst (POST (ex_env 5000) (ex_request (Some ''s1'') ''initial_visit'' ex_data) ex_store)
     = okResponse (Some ex_visit)"
  using initial_visit_idempotent
    [of "ex_request (Some ''s1'') ''initial_visit'' ex_data"
        "ex_body (Some ''s1'') ''initial_visit'' ex_data" "''s1''" ex_store ex_visit
        "ex_env 5000"]
  by (simp add: ex_request_def ex_body_def ex_store_def)

subsection \<open>Events for a session that does not exist\<close>

text \<open>
  C2. A \<open>location_permission\<close>, \<open>location_update\<close> or \<open>interaction\<close> event that
  carries a session id for which the store holds no document leaves the store as it
  was and is answered with the success response (status 200, \<open>success: true\<close>), which
  reports no document; nothing is thrown and no document is created. This holds
  whatever \<open>data\<close> the event carries, also none.
\<close>

theorem non_initial_event_without_session:
  assumes "body req = Some b" and "Body.sessionId b = Some sid" and "sid \<noteq> []"
    and "type b \<in> {''location_permission'', ''location_update'', ''interaction''}"
    and "st sid = None"
  shows "POST e req st = (okResponse None, st) \<and>
         success (okResponse None) \<and> status (okResponse None) = 200"
  using assms by (auto simp add: POST_def handleEvent_def okResponse_def)

theorem non_initial_event_without_session_witness:
  "ex_store ''s2'' = None \<and>
   POST (ex_env 5000) (ex_request (Some ''s2'') ''interaction'' ex_data) ex_store
     = (okResponse None, ex_store) \<and>
   success (okResponse None) \<and> status (okResponse None) = 200"
  using non_initial_event_without_session
    [of "ex_request (Some ''s2'') ''interaction'' ex_data"
        "ex_body (Some ''s2'') ''interaction'' ex_data" "''s2''" ex_store "ex_env 5000"]
  by (simp add: ex_request_def ex_body_def ex_store_def)

subsection \<open>The duration of a visit\<close>

text \<open>A \<open>location_update\<close> event without a location does not pass the guard
  \<open>userVisit && data.location\<close>: nothing is stored.\<close>

lemma location_update_without_location_skipped:
  assumes "body req = Some b" and "type b = ''location_update''"
    and "data b = Some d" and "EventData.location d = None"
  shows "snd (POST e req st) = st"
  using assms
  by (auto simp add: POST_def handleEvent_def split: option.splits)

text \<open>
  C3, as the claim states it, fails: a \<open>location_update\<close> event without a location,
  handled for the existing session \<open>s1\<close>, is answered with the success response and
  leaves the stored \<open>totalDuration\<close> at 0, while the clock of the run, from its first
  reading to its third, is 99 whole seconds past \<open>firstVisit\<close>.
\<close>

theorem stale_totalDuration_counterexample:
  "ex_store ''s1'' = Some ex_visit \<and>
   fst (POST (ex_env 100000) (ex_request (Some ''s1'') ''location_update'' ex_data) ex_store)
     = okResponse (Some ex_visit) \<and>
   map_option totalDuration
     (snd (POST (ex_env 100000) (ex_request (Some ''s1'') ''location_update'' ex_data)
             ex_store) ''s1'') = Some 0 \<and>
   (clock (ex_env 100000) 0 - firstVisit ex_visit) div 1000 = 99 \<and>
   (clock (ex_env 100000) 2 - firstVisit ex_visit) div 1000 = 99"
  by (simp add: POST_def handleEvent_def ex_request_def ex_body_def ex_store_def ex_env_def
      ex_data_def ex_visit_def)

text \<open>
  C3, amended. After a \<open>location_update\<close> event that carries a location, or an
  \<open>interaction\<close> event, handled for an existing session (the event carrying its
  \<open>data\<close> object), the stored \<open>totalDuration\<close> is the floor of (clock reading -
  \<open>firstVisit\<close>) / 1000, where the clock reading is the one taken for the duration
  while the event is handled (the third \<open>new Date()\<close> of a location update, the
  second of an interaction). The value is computed from \<open>firstVisit\<close> alone: the
  \<open>totalDuration\<close> stored before does not enter it. A \<open>location_update\<close> event
  without a location leaves the store, and so the stored duration, as it was.
\<close>

theorem totalDuration_recomputed:
  assumes "body req = Some b" and "Body.sessionId b = Some sid" and "sid \<noteq> []"
    and "st sid = Some v" and "data b = Some d"
  shows "(type b = ''location_update'' \<and> EventData.location d \<noteq> None \<longrightarrow>
            map_option totalDuration (snd (POST e req st) sid)
              = Some ((clock e 2 - firstVisit v) div 1000)) \<and>
         (type b = ''interaction'' \<longrightarrow>
            map_option totalDuration (snd (POST e req st) sid)
              = Some ((clock e 1 - firstVisit v) div 1000)) \<and>
         (type b = ''location_update'' \<and> EventData.location d = None \<longrightarrow>
            snd (POST e req st) = st)"
  using assms
  by (auto simp add: POST_def handleEvent_def onLocationUpdate_def onInteraction_def Let_def)

theorem totalDuration_recomputed_witness:
  "map_option totalDuration
     (snd (POST (ex_env 100000)
             (ex_request (Some ''s1'') ''location_update''
                (ex_data\<lparr>location := Some ex_location\<rparr>)) ex_store) ''s1'') = Some 99 \<and>
   map_option totalDuration
     (snd (POST (ex_env 100000) (ex_request (Some ''s1'') ''interaction'' ex_data) ex_store)
        ''s1'') = Some 99 \<and>
   snd (POST (ex_env 100000) (ex_request (Some ''s1'') ''location_update'' ex_data) ex_store)
     = ex_store"
  using totalDuration_recomputed
    [of "ex_request (Some ''s1'') ''location_update'' (ex_data\<lparr>location := Some ex_location\<rparr>)"
        "ex_body (Some ''s1'') ''location_update'' (ex_data\<lparr>location := Some ex_location\<rparr>)"
        "''s1''" ex_store ex_visit "ex_data\<lparr>location := Some ex_location\<rparr>" "ex_env 100000"]
    totalDuration_recomputed
    [of "ex_request (Some ''s1'') ''interaction'' ex_data"
        "ex_body (Some ''s1'') ''interaction'' ex_data"
        "''s1''" ex_store ex_visit ex_data "ex_env 100000"]
    totalDuration_recomputed
    [of "ex_request (Some ''s1'') ''location_update'' ex_data"
        "ex_body (Some ''s1'') ''location_update'' ex_data"
        "''s1''" ex_store ex_visit ex_data "ex_env 100000"]
  by (simp add: ex_request_def ex_body_def ex_store_def ex_env_def ex_visit_def ex_data_def)

subsection \<open>The time of the permission decision\<close>

text \<open>
  C6, as the claim states it, fails: every \<open>location_permission\<close> event assigns
  \<open>locationPermissionTime\<close>, also the second one. Session \<open>s1\<close> gets a decision in a
  run whose clock starts at 2000 and another in a run whose clock starts at 9000; the
  stored time is 2000 after the first and 9000 after the second.
\<close>

theorem locationPermissionTime_overwritten_counterexample:
  "map_option locationPermissionTime
     (snd (POST (ex_env 2000)
             (ex_request (Some ''s1'') ''location_permission'' (ex_data\<lparr>granted := Some False\<rparr>))
             ex_store) ''s1'') = Some (Some 2000) \<and>
   map_option locationPermissionTime
     (snd (POST (ex_env 9000)
             (ex_request (Some ''s1'') ''location_permission'' (ex_data\<lparr>granted := Some True\<rparr>))
             (snd (POST (ex_env 2000)
                     (ex_request (Some ''s1'') ''location_permission''
                        (ex_data\<lparr>granted := Some False\<rparr>))
                     ex_store))) ''s1'') = Some (Some 9000)"
  by (simp add: POST_def handleEvent_def onLocationPermission_def Let_def ex_request_def
      ex_body_def ex_store_def ex_env_def ex_data_def)

text \<open>
  C6, amended. For a stored session, a \<open>location_permission\<close> event for it that
  carries a \<open>data\<close> object sets \<open>locationPermissionTime\<close> to the first clock reading
  of that run, whether or not the field was set before; every other request (another
  event type, another session id, no session id) leaves the field as it was.
\<close>

theorem locationPermissionTime_written_by_permission_events_only:
  assumes "body req = Some b" and "st sid = Some v"
  shows "(type b = ''location_permission'' \<and> Body.sessionId b = Some sid \<and> sid \<noteq> [] \<and>
          data b \<noteq> None \<longrightarrow>
            map_option locationPermissionTime (snd (POST e req st) sid)
              = Some (Some (clock e 0))) \<and>
         (\<not> (type b = ''location_permission'' \<and> Body.sessionId b = Some sid) \<longrightarrow>
            map_option locationPermissionTime (snd (POST e req st) sid)
              = Some (locationPermissionTime v))"
proof (intro conjI impI)
  assume "type b = ''location_permission'' \<and> Body.sessionId b = Some sid \<and> sid \<noteq> [] \<and>
          data b \<noteq> None"
  with assms
  show "map_option locationPermissionTime (snd (POST e req st) sid) = Some (Some (clock e 0))"
    by (auto simp add: POST_def handleEvent_def onLocationPermission_def Let_def)
next
  assume other: "\<not> (type b = ''location_permission'' \<and> Body.sessionId b = Some sid)"
  from POST_cases [of e req st]
  show "map_option locationPermissionTime (snd (POST e req st) sid)
          = Some (locationPermissionTime v)"
  proof (elim disjE exE conjE)
    assume "POST e req st = (serverError, st)"
    with assms show ?thesis by simp
  next
    assume "POST e req st = (badRequest, st)"
    with assms show ?thesis by simp
  next
    fix b' s uv st'
    assume h: "body req = Some b'" "Body.sessionId b' = Some s" "s \<noteq> []"
      "handleEvent e req b' s st = Inr (uv, st')" "POST e req st = (okResponse uv, st')"
    with assms have b': "b' = b" by simp
    show ?thesis
    proof (cases "s = sid")
      case True
      with other h b' have "type b \<noteq> ''location_permission''" by auto
      with handleEvent_keeps_permission_time [of e req b sid st uv st' v] h b' True assms
      show ?thesis by simp
    next
      case False
      with handleEvent_other_session [of e req b s st uv st' sid] h b' assms
      show ?thesis by simp
    qed
  qed
qed

theorem locationPermissionTime_written_by_permission_events_only_witness:
  "map_option locationPermissionTime
     (snd (POST (ex_env 2000)
             (ex_request (Some ''s1'') ''location_permission'' (ex_data\<lparr>granted := Some True\<rparr>))
             ex_store) ''s1'') = Some (Some 2000) \<and>
   map_option locationPermissionTime
     (snd (POST (ex_env 2000) (ex_request (Some ''s1'') ''interaction'' ex_data) ex_store)
        ''s1'') = Some None"
  using locationPermissionTime_written_by_permission_events_only
    [of "ex_request (Some ''s1'') ''location_permission'' (ex_data\<lparr>granted := Some True\<rparr>)"
        "ex_body (Some ''s1'') ''location_permission'' (ex_data\<lparr>granted := Some True\<rparr>)"
        ex_store "''s1''" ex_visit "ex_env 2000"]
    locationPermissionTime_written_by_permission_events_only
    [of "ex_request (Some ''s1'') ''interaction'' ex_data"
        "ex_body (Some ''s1'') ''interaction'' ex_data"
        ex_store "''s1''" ex_visit "ex_env 2000"]
  by (simp add: ex_request_def ex_body_def ex_store_def ex_env_def ex_visit_def)

subsection \<open>Requests without a session id\<close>

text \<open>
  C10. A request whose body has no \<open>sessionId\<close> is answered with the failure
  response of status 400, and the store is left as it was, whatever the event type
  and data.
\<close>

theorem missing_sessionId_rejected:
  assumes "body req = Some b" and "Body.sessionId b = None"
  shows "POST e req st = (badRequest, st) \<and> status badRequest = 400 \<and> \<not> success badRequest"
  using assms by (simp add: POST_def badRequest_def)

theorem missing_sessionId_rejected_witness:
  "POST (ex_env 5000) (ex_request None ''initial_visit'' ex_data) ex_store
     = (badRequest, ex_store) \<and>
   status badRequest = 400 \<and> \<not> success badRequest"
  using missing_sessionId_rejected
    [of "ex_request None ''initial_visit'' ex_data" "ex_body None ''initial_visit'' ex_data"
        "ex_env 5000" ex_store]
  by (simp add: ex_request_def ex_body_def)

subsection \<open>Geographic data\<close>

lemma or_default_nonempty: "d \<noteq> [] \<Longrightarrow> or_default x d \<noteq> []"
  by (simp add: or_default_def split: option.splits)

lemma geoLookup_nonempty:
  "geoLookup r = Inr g \<Longrightarrow> g_city g \<noteq> [] \<and> g_country g \<noteq> [] \<and> g_region g \<noteq> []"
  by (erule geoLookup.elims) (auto simp add: or_default_nonempty)

text \<open>
  C8, as the claim states it, fails in one part: the address \<open>10.0.0.1\<close> is private,
  and for it the lookup service is contacted. The function tests the prefixes
  \<open>192.168.\<close> and \<open>127.\<close> only.
\<close>

theorem private_address_is_looked_up_counterexample:
  "spec_private_or_loopback ''10.0.0.1'' \<and>
   fst (getGeographicData ''10.0.0.1'' NetworkError) = [''http://ipapi.co/10.0.0.1/json/'']"
  by (simp add: spec_private_or_loopback_def getGeographicData_def startsWith_def)

text \<open>
  C8, amended. For every address and every outcome of the lookup,
  \<open>getGeographicData\<close> returns a record (every exception of the lookup ends in the
  \<open>catch\<close>) whose three fields are non-empty strings. For the address \<open>unknown\<close> and
  for every address that starts with \<open>192.168.\<close> or \<open>127.\<close> the record is the
  all-Unknown one and no request is made; when the lookup fails (the request is
  rejected, the body is not JSON, or it is \<open>null\<close>) the record is the all-Unknown one
  too.
\<close>

theorem getGeographicData_never_fails:
  "((ip = ''unknown'' \<or> startsWith ip ''192.168.'' \<or> startsWith ip ''127.'') \<longrightarrow>
      getGeographicData ip r = ([], unknownGeo)) \<and>
   (isl (geoLookup r) \<longrightarrow> snd (getGeographicData ip r) = unknownGeo) \<and>
   g_city (snd (getGeographicData ip r)) \<noteq> [] \<and>
   g_country (snd (getGeographicData ip r)) \<noteq> [] \<and>
   g_region (snd (getGeographicData ip r)) \<noteq> []"
  by (auto simp add: getGeographicData_def unknownGeo_def split: sum.splits
      dest: geoLookup_nonempty)

theorem getGeographicData_never_fails_witness:
  "getGeographicData ''192.168.1.20'' (HttpResponse True (Some (JsonObject (Some ''Pune'') None None)))
     = ([], unknownGeo) \<and>
   snd (getGeographicData ''8.8.8.8'' (HttpResponse True None)) = unknownGeo"
  using getGeographicData_never_fails
    [of "''192.168.1.20''" "HttpResponse True (Some (JsonObject (Some ''Pune'') None None))"]
    getGeographicData_never_fails [of "''8.8.8.8''" "HttpResponse True None"]
  by (simp add: startsWith_def)

section \<open>The page: properties\<close>

subsection \<open>Rounding\<close>

lemma rne_eqI:
  assumes "of_int n - 1 / 2 < y" and "y < of_int n + 1 / 2"
  shows "rne y = n"
proof (cases "of_int n \<le> y")
  case True
  with assms have "\<lfloor>y\<rfloor> = n" by (simp add: floor_eq_iff)
  with assms show ?thesis by (simp add: rne_def Let_def)
next
  case False
  with assms have f: "\<lfloor>y\<rfloor> = n - 1" by (simp add: floor_eq_iff)
  from False assms have "1 / 2 < y - of_int (n - 1)" by simp
  with f show ?thesis by (simp add: rne_def Let_def)
qed

lemma binade_eqI:
  assumes "- 1022 \<le> e" and "2 powr of_int e \<le> \<bar>x\<bar>" and "\<bar>x\<bar> < 2 powr (of_int e + 1)"
  shows "binade x = e"
proof -
  have pos: "0 < \<bar>x\<bar>" using assms(2) powr_gt_zero [of 2 "of_int e"] by linarith
  have "of_int e \<le> log 2 \<bar>x\<bar>" using assms(2) pos by (simp add: le_log_iff)
  moreover have "log 2 \<bar>x\<bar> < of_int e + 1" using assms(3) pos by (simp add: log_less_iff)
  ultimately have "\<lfloor>log 2 \<bar>x\<bar>\<rfloor> = e" by (simp add: floor_eq_iff)
  with assms(1) show ?thesis by (simp add: binade_def)
qed

text \<open>How a rounding is evaluated: \<open>x\<close> lies in the binade of exponent \<open>e\<close>, and
  within half a unit in the last place of \<open>n\<close> units.\<close>

lemma rnd_eqI:
  fixes x y :: real and e n :: int
  assumes "- 1022 \<le> e"
    and "2 powr of_int e \<le> \<bar>x\<bar>" and "\<bar>x\<bar> < 2 powr (of_int e + 1)"
    and "(of_int n - 1 / 2) * 2 powr (of_int e - 52) < x"
    and "x < (of_int n + 1 / 2) * 2 powr (of_int e - 52)"
    and "y = of_int n * 2 powr (of_int e - 52)"
  shows "rnd x = y"
proof -
  let ?q = "2 powr (of_int e - 52) :: real"
  have q: "0 < ?q" by simp
  have b: "binade x = e" by (rule binade_eqI [OF assms(1-3)])
  have nz: "x \<noteq> 0" using assms(2) powr_gt_zero [of 2 "of_int e"] by auto
  have "of_int n - 1 / 2 < x / ?q" using assms(4) q by (simp add: pos_less_divide_eq)
  moreover have "x / ?q < of_int n + 1 / 2" using assms(5) q by (simp add: pos_divide_less_eq)
  ultimately have "rne (x / ?q) = n" by (rule rne_eqI)
  with b nz assms(6) show ?thesis by (simp add: rnd_def)
qed

lemma pow2_neg: "2 powr (- numeral k) = 1 / (2::real) ^ numeral k"
  by (simp add: powr_minus_divide)

lemma js_mul_eqI:
  fixes e n :: int
  assumes "- 1022 \<le> e"
    and "2 powr of_int e \<le> \<bar>a * b\<bar>" and "\<bar>a * b\<bar> < 2 powr (of_int e + 1)"
    and "(of_int n - 1 / 2) * 2 powr (of_int e - 52) < a * b"
    and "a * b < (of_int n + 1 / 2) * 2 powr (of_int e - 52)"
    and "y = of_int n * 2 powr (of_int e - 52)"
  shows "js_mul (Num a) (Num b) = Num y"
  using rnd_eqI [OF assms] by simp

lemma js_add_eqI:
  fixes e n :: int
  assumes "- 1022 \<le> e"
    and "2 powr of_int e \<le> \<bar>a + b\<bar>" and "\<bar>a + b\<bar> < 2 powr (of_int e + 1)"
    and "(of_int n - 1 / 2) * 2 powr (of_int e - 52) < a + b"
    and "a + b < (of_int n + 1 / 2) * 2 powr (of_int e - 52)"
    and "y = of_int n * 2 powr (of_int e - 52)"
  shows "js_add (Num a) (Num b) = Num y"
  using rnd_eqI [OF assms] by simp

lemma js_sub_eqI:
  fixes e n :: int
  assumes "- 1022 \<le> e"
    and "2 powr of_int e \<le> \<bar>a - b\<bar>" and "\<bar>a - b\<bar> < 2 powr (of_int e + 1)"
    and "(of_int n - 1 / 2) * 2 powr (of_int e - 52) < a - b"
    and "a - b < (of_int n + 1 / 2) * 2 powr (of_int e - 52)"
    and "y = of_int n * 2 powr (of_int e - 52)"
  shows "js_sub (Num a) (Num b) = Num y"
  using rnd_eqI [OF assms] by simp

lemma js_div_eqI:
  fixes e n :: int
  assumes "- 1022 \<le> e"
    and "2 powr of_int e \<le> \<bar>a / b\<bar>" and "\<bar>a / b\<bar> < 2 powr (of_int e + 1)"
    and "(of_int n - 1 / 2) * 2 powr (of_int e - 52) < a / b"
    and "a / b < (of_int n + 1 / 2) * 2 powr (of_int e - 52)"
    and "y = of_int n * 2 powr (of_int e - 52)"
    and "b \<noteq> 0"
  shows "js_div (Num a) (Num b) = Num y"
  using rnd_eqI [OF assms(1-6)] assms(7) by simp

subsection \<open>The sine and cosine that the computation reads\<close>

text \<open>
  The double nearest to the sine of 0.13962634015954636 is 0.13917310096006544, the
  double nearest to its cosine is 0.9902680687415704, and the double nearest to the
  sine of 1.5707963267948966 is 1: Taylor polynomials with their remainders place
  the exact values within half a unit in the last place of these. V8 (its port of
  fdlibm) and glibc return these doubles.
\<close>

lemma sum_lessThan_13:
  fixes f :: "nat \<Rightarrow> real"
  shows "(\<Sum>m<13. f m) = f 0 + f 1 + f 2 + f 3 + f 4 + f 5 + f 6 + f 7 + f 8 + f 9 + f 10 + f 11 + f 12"
  by (simp add: numeral_eq_Suc)

lemma sum_lessThan_16:
  fixes f :: "nat \<Rightarrow> real"
  shows "(\<Sum>m<16. f m) = f 0 + f 1 + f 2 + f 3 + f 4 + f 5 + f 6 + f 7 + f 8 + f 9 + f 10 + f 11 + f 12
     + f 13 + f 14 + f 15"
  by (simp add: numeral_eq_Suc)

lemma sin_coeffs:
  "sin_coeff 0 = 0" "sin_coeff 1 = 1" "sin_coeff 2 = 0" "sin_coeff 3 = - 1 / 6"
  "sin_coeff 4 = 0" "sin_coeff 5 = 1 / 120" "sin_coeff 6 = 0" "sin_coeff 7 = - 1 / 5040"
  "sin_coeff 8 = 0" "sin_coeff 9 = 1 / 362880" "sin_coeff 10 = 0"
  "sin_coeff 11 = - 1 / 39916800" "sin_coeff 12 = 0"
  by (simp_all add: sin_coeff_def fact_numeral)

lemma cos_coeffs:
  "cos_coeff 0 = 1" "cos_coeff 1 = 0" "cos_coeff 2 = - 1 / 2" "cos_coeff 3 = 0"
  "cos_coeff 4 = 1 / 24" "cos_coeff 5 = 0" "cos_coeff 6 = - 1 / 720" "cos_coeff 7 = 0"
  "cos_coeff 8 = 1 / 40320" "cos_coeff 9 = 0" "cos_coeff 10 = - 1 / 3628800"
  "cos_coeff 11 = 0" "cos_coeff 12 = 1 / 479001600" "cos_coeff 13 = 0"
  "cos_coeff 14 = - 1 / 87178291200" "cos_coeff 15 = 0"
  by (simp_all add: cos_coeff_def fact_numeral)

lemma sin_poly13:
  fixes x :: real
  shows "(\<Sum>m<13. sin_coeff m * x ^ m) =
           x - x ^ 3 / 6 + x ^ 5 / 120 - x ^ 7 / 5040 + x ^ 9 / 362880 - x ^ 11 / 39916800"
  unfolding sum_lessThan_13 sin_coeffs by simp

lemma cos_poly16:
  fixes x :: real
  shows "(\<Sum>m<16. cos_coeff m * x ^ m) =
           1 - x ^ 2 / 2 + x ^ 4 / 24 - x ^ 6 / 720 + x ^ 8 / 40320 - x ^ 10 / 3628800
             + x ^ 12 / 479001600 - x ^ 14 / 87178291200"
  unfolding sum_lessThan_16 cos_coeffs by simp

lemma Maclaurin_cos_bound: "\<bar>cos x - (\<Sum>m<n. cos_coeff m * x ^ m)\<bar> \<le> inverse (fact n) * \<bar>x\<bar> ^ n"
proof -
  obtain t where t: "cos x = (\<Sum>m<n. cos_coeff m * x ^ m) + (cos (t + 1 / 2 * real n * pi) / fact n) * x ^ n"
    using Maclaurin_cos_expansion [of x n] by blast
  let ?c = "cos (t + 1 / 2 * real n * pi)"
  have "cos x - (\<Sum>m<n. cos_coeff m * x ^ m) = ?c * (inverse (fact n) * x ^ n)"
    unfolding t by (simp only: add_diff_cancel_left' divide_inverse mult.assoc)
  moreover have "\<bar>inverse (fact n) :: real\<bar> = inverse (fact n)" by simp
  ultimately have "\<bar>cos x - (\<Sum>m<n. cos_coeff m * x ^ m)\<bar> = \<bar>?c\<bar> * (inverse (fact n) * \<bar>x\<bar> ^ n)"
    by (simp only: abs_mult power_abs)
  also have "\<dots> \<le> 1 * (inverse (fact n) * \<bar>x\<bar> ^ n)"
    by (rule mult_right_mono) simp_all
  finally show ?thesis by simp
qed

lemma sin_x0:
  "5014239404989977 / 36028797018963968 - 1 / 2 ^ 56 <
     sin (5030569068109113 / 36028797018963968 :: real) \<and>
   sin (5030569068109113 / 36028797018963968 :: real) <
     5014239404989977 / 36028797018963968 + 1 / 2 ^ 56"
proof -
  let ?x = "5030569068109113 / 36028797018963968 :: real"
  let ?p = "?x - ?x ^ 3 / 6 + ?x ^ 5 / 120 - ?x ^ 7 / 5040 + ?x ^ 9 / 362880 - ?x ^ 11 / 39916800"
  have b: "\<bar>sin ?x - ?p\<bar> \<le> inverse (fact 13) * \<bar>?x\<bar> ^ 13"
    using Maclaurin_sin_bound [of ?x 13] unfolding sin_poly13 .
  have e: "inverse (fact 13) * \<bar>?x\<bar> ^ 13 \<le> 1 / 10 ^ 20"
    by (simp add: fact_numeral power_divide)
  have lo: "5014239404989977 / 36028797018963968 - 1 / 2 ^ 56 + 1 / 10 ^ 20 < ?p"
    by (simp add: power_divide)
  have hi: "?p + 1 / 10 ^ 20 < 5014239404989977 / 36028797018963968 + 1 / 2 ^ 56"
    by (simp add: power_divide)
  from b e lo hi show ?thesis by linarith
qed


lemma cos_x0:
  "4459770905381437 / 4503599627370496 - 1 / 2 ^ 54 <
     cos (5030569068109113 / 36028797018963968 :: real) \<and>
   cos (5030569068109113 / 36028797018963968 :: real) <
     4459770905381437 / 4503599627370496 + 1 / 2 ^ 54"
proof -
  let ?x = "5030569068109113 / 36028797018963968 :: real"
  let ?p = "1 - ?x ^ 2 / 2 + ?x ^ 4 / 24 - ?x ^ 6 / 720 + ?x ^ 8 / 40320 - ?x ^ 10 / 3628800
             + ?x ^ 12 / 479001600 - ?x ^ 14 / 87178291200"
  have b: "\<bar>cos ?x - ?p\<bar> \<le> inverse (fact 16) * \<bar>?x\<bar> ^ 16"
    using Maclaurin_cos_bound [of ?x 16] unfolding cos_poly16 .
  have e: "inverse (fact 16) * \<bar>?x\<bar> ^ 16 \<le> 1 / 10 ^ 20"
    by (simp add: fact_numeral power_divide)
  have lo: "4459770905381437 / 4503599627370496 - 1 / 2 ^ 54 + 1 / 10 ^ 20 < ?p"
    by (simp add: power_divide)
  have hi: "?p + 1 / 10 ^ 20 < 4459770905381437 / 4503599627370496 + 1 / 2 ^ 54"
    by (simp add: power_divide)
  from b e lo hi show ?thesis by linarith
qed

lemma cos_xh:
  "\<bar>cos (884279719003555 / 562949953421312 :: real)\<bar> \<le> 2 / 10 ^ 10"
proof -
  let ?x = "884279719003555 / 562949953421312 :: real"
  let ?p = "1 - ?x ^ 2 / 2 + ?x ^ 4 / 24 - ?x ^ 6 / 720 + ?x ^ 8 / 40320 - ?x ^ 10 / 3628800
             + ?x ^ 12 / 479001600 - ?x ^ 14 / 87178291200"
  have b: "\<bar>cos ?x - ?p\<bar> \<le> inverse (fact 16) * \<bar>?x\<bar> ^ 16"
    using Maclaurin_cos_bound [of ?x 16] unfolding cos_poly16 .
  have e: "inverse (fact 16) * \<bar>?x\<bar> ^ 16 \<le> 1 / 10 ^ 10"
    by (simp add: fact_numeral power_divide)
  have lo: "- (1 / 10 ^ 10) < ?p"
    by (simp add: power_divide)
  have hi: "?p < 1 / 10 ^ 10"
    by (simp add: power_divide)
  from b e lo hi show ?thesis by linarith
qed


lemma rnd_sin_x0:
  "rnd (- sin (5030569068109113 / 36028797018963968))
     = - (5014239404989977 / 36028797018963968)"
proof -
  let ?s = "sin (5030569068109113 / 36028797018963968 :: real)"
  from sin_x0 have lo: "5014239404989977 / 36028797018963968 - 1 / 2 ^ 56 < ?s"
    and hi: "?s < 5014239404989977 / 36028797018963968 + 1 / 2 ^ 56" by simp_all
  have "rnd (- ?s) = - (5014239404989977 / 36028797018963968)"
  proof (rule rnd_eqI [where e = "- 3" and n = "- 5014239404989977"])
    show "2 powr of_int (- 3) \<le> \<bar>- ?s\<bar>" using lo by (simp add: pow2_neg)
    show "\<bar>- ?s\<bar> < 2 powr (of_int (- 3) + 1)" using lo hi by (simp add: pow2_neg)
    show "(of_int (- 5014239404989977) - 1 / 2) * 2 powr (of_int (- 3) - 52) < - ?s"
      using hi by (simp add: pow2_neg)
    show "- ?s < (of_int (- 5014239404989977) + 1 / 2) * 2 powr (of_int (- 3) - 52)"
      using lo by (simp add: pow2_neg)
  qed (simp_all add: pow2_neg)
  then show ?thesis .
qed

lemma rnd_cos_x0:
  "rnd (cos (5030569068109113 / 36028797018963968))
     = 4459770905381437 / 4503599627370496"
proof -
  let ?c = "cos (5030569068109113 / 36028797018963968 :: real)"
  from cos_x0 have lo: "4459770905381437 / 4503599627370496 - 1 / 2 ^ 54 < ?c"
    and hi: "?c < 4459770905381437 / 4503599627370496 + 1 / 2 ^ 54" by simp_all
  show ?thesis
  proof (rule rnd_eqI [where e = "- 1" and n = 8919541810762874])
    show "2 powr of_int (- 1) \<le> \<bar>?c\<bar>" using lo by (simp add: pow2_neg)
    show "\<bar>?c\<bar> < 2 powr (of_int (- 1) + 1)" using lo hi by (simp add: pow2_neg)
    show "(of_int 8919541810762874 - 1 / 2) * 2 powr (of_int (- 1) - 52) < ?c"
      using lo by (simp add: pow2_neg)
    show "?c < (of_int 8919541810762874 + 1 / 2) * 2 powr (of_int (- 1) - 52)"
      using hi by (simp add: pow2_neg)
  qed (simp_all add: pow2_neg)
qed

lemma rnd_sin_xh: "rnd (sin (884279719003555 / 562949953421312)) = 1"
proof -
  let ?x = "884279719003555 / 562949953421312 :: real"
  have "?x < 2" by simp
  then have "?x < pi" using pi_ge_two by linarith
  then have pos: "0 < sin ?x" by (intro sin_gt_zero) simp_all
  have le: "sin ?x \<le> 1" by simp
  have "\<bar>cos ?x\<bar> \<le> \<bar>2 / 10 ^ 10 :: real\<bar>" using cos_xh by simp
  then have c: "(cos ?x)\<^sup>2 \<le> (2 / 10 ^ 10)\<^sup>2"
    by (simp only: abs_le_square_iff)
  have "(sin ?x)\<^sup>2 = 1 - (cos ?x)\<^sup>2" by (simp add: sin_squared_eq)
  moreover have "(sin ?x)\<^sup>2 \<le> sin ?x"
    using pos le by (simp add: power2_eq_square mult_left_le)
  moreover have "(2 / 10 ^ 10)\<^sup>2 = (4 / 10 ^ 20 :: real)" by (simp add: power_divide)
  ultimately have lo: "1 - 4 / 10 ^ 20 \<le> sin ?x" using c by linarith
  have a: "\<bar>sin ?x\<bar> = sin ?x" using pos by simp
  show ?thesis
  proof (cases "sin ?x = 1")
    case True
    have "rnd 1 = 1" by (rule rnd_eqI [where e = 0 and n = 4503599627370496]) (simp_all add: pow2_neg)
    with True show ?thesis by simp
  next
    case False
    with le have lt: "sin ?x < 1" by linarith
    show ?thesis
    proof (rule rnd_eqI [where e = "- 1" and n = 9007199254740992])
      show "2 powr of_int (- 1) \<le> \<bar>sin ?x\<bar>" unfolding a using lo by (simp add: pow2_neg)
      show "\<bar>sin ?x\<bar> < 2 powr (of_int (- 1) + 1)" unfolding a using lt by simp
      show "(of_int 9007199254740992 - 1 / 2) * 2 powr (of_int (- 1) - 52) < sin ?x"
        using lo by (simp add: pow2_neg)
      show "sin ?x < (of_int 9007199254740992 + 1 / 2) * 2 powr (of_int (- 1) - 52)"
        using lt by (simp add: pow2_neg)
    qed (simp_all add: pow2_neg)
  qed
qed

subsection \<open>The fallback route\<close>

text \<open>
  What holds of the fallback for all points and every failure of the request (a
  rejected or aborted fetch, a response that is not 2xx, a body that is not JSON, no
  route, a route without geometry): the route is the two points, latitude first; the
  distance is what \<open>calculateDistance\<close> computes in doubles, also on the road branch,
  whose \<open>catch\<close> repeats its operations; the duration is that distance divided by
  the double nearest to 1.4 (walking) or to 13.89 (road).
\<close>

lemma getRoute_fallback:
  assumes "startPoint s = Some sp" and "endPoint s = Some ep"
    and "fetchOsrmRoute r = Inl err"
  shows "routeCoordinates (getRoute M r s)
           = Some [(latitude sp, longitude sp), (latitude ep, longitude ep)] \<and>
         routeInfo (getRoute M r s)
           = Some \<lparr>RouteInfo.duration =
                     js_div (calculateDistance M sp ep)
                       (case routeType s of road \<Rightarrow> lit 13.89 | walking \<Rightarrow> lit 1.4),
                   RouteInfo.distance = calculateDistance M sp ep\<rparr>"
  using assms
  by (cases "routeType s")
    (simp_all add: getRoute_def getWalkingRoute_def createDirectWalkingRoute_def
      calculateDistance_def Let_def)

lemma fetchOsrmRoute_failed:
  "spec_routing_failed r \<Longrightarrow> \<exists>err. fetchOsrmRoute r = Inl err"
  by (induction r rule: spec_routing_failed.induct) simp_all

text \<open>The points 8 N 0 E and 8 S 180 E are antipodal: their great-circle distance is
  half the circumference.\<close>

lemma spec_haversine_antipodes: "spec_haversine R (8, 0) (- 8, 180) = R * pi"
proof -
  have "hav (radians (- 8) - radians 8) + cos (radians 8) * cos (radians (- 8)) *
          hav (radians 180 - radians 0) = (sin (radians 8))\<^sup>2 + (cos (radians 8))\<^sup>2"
    by (simp add: hav_def radians_def power2_eq_square)
  also have "\<dots> = 1" by simp
  finally show ?thesis by (simp add: spec_haversine_def Let_def)
qed

text \<open>
  \<open>calculateDistance\<close> between these two points, one operation at a time. The
  angles are 0.13962634015954636 and its negative, and \<open>(\<Delta>\<lambda>) / 2\<close> is the double
  nearest to \<open>\<pi> / 2\<close>. With the sine and cosine the engine returns there, the two
  squares round to 0.019369152030840567 and 0.9806308479691596, their sum rounds to
  \<open>1 + 2\<^sup>-\<^sup>5\<^sup>2\<close>, so \<open>1 - a\<close> is negative and its square root is \<open>NaN\<close>.
\<close>

lemma calculateDistance_antipodes:
  assumes "m_sin M (- (5030569068109113 / 36028797018963968))
             = - (5014239404989977 / 36028797018963968)"
    and "m_cos M (5030569068109113 / 36028797018963968)
             = 4459770905381437 / 4503599627370496"
    and "m_cos M (- (5030569068109113 / 36028797018963968))
             = 4459770905381437 / 4503599627370496"
    and "m_sin M (884279719003555 / 562949953421312) = 1"
  shows "calculateDistance M \<lparr>longitude = Num 0, latitude = Num 8\<rparr>
           \<lparr>longitude = Num 180, latitude = Num (- 8)\<rparr> = NaN"
proof -
  have m1: "js_mul (Num 8) (Num (884279719003555 / 281474976710656)) = Num (884279719003555 / 35184372088832)"
    by (rule js_mul_eqI [where e = 4 and n = 7074237752028440]) (simp_all add: pow2_neg)
  have phi1: "js_div (Num (884279719003555 / 35184372088832)) (Num 180) = Num (5030569068109113 / 36028797018963968)"
    by (rule js_div_eqI [where e = "- 3" and n = 5030569068109113]) (simp_all add: pow2_neg)
  have m2: "js_mul (Num (- 8)) (Num (884279719003555 / 281474976710656)) = Num (- (884279719003555 / 35184372088832))"
    by (rule js_mul_eqI [where e = 4 and n = "- 7074237752028440"]) (simp_all add: pow2_neg)
  have phi2: "js_div (Num (- (884279719003555 / 35184372088832))) (Num 180) = Num (- (5030569068109113 / 36028797018963968))"
    by (rule js_div_eqI [where e = "- 3" and n = "- 5030569068109113"]) (simp_all add: pow2_neg)
  have d1: "js_sub (Num (- 8)) (Num 8) = Num (- 16)"
    by (rule js_sub_eqI [where e = 4 and n = "- 4503599627370496"]) (simp_all add: pow2_neg)
  have m3: "js_mul (Num (- 16)) (Num (884279719003555 / 281474976710656)) = Num (- (884279719003555 / 17592186044416))"
    by (rule js_mul_eqI [where e = 5 and n = "- 7074237752028440"]) (simp_all add: pow2_neg)
  have dphi: "js_div (Num (- (884279719003555 / 17592186044416))) (Num 180) = Num (- (5030569068109113 / 18014398509481984))"
    by (rule js_div_eqI [where e = "- 2" and n = "- 5030569068109113"]) (simp_all add: pow2_neg)
  have d2: "js_sub (Num 180) (Num 0) = Num 180"
    by (rule js_sub_eqI [where e = 7 and n = 6333186975989760]) (simp_all add: pow2_neg)
  have m4: "js_mul (Num 180) (Num (884279719003555 / 281474976710656)) = Num (4974073419394997 / 8796093022208)"
    by (rule js_mul_eqI [where e = 9 and n = 4974073419394997]) (simp_all add: pow2_neg)
  have dlam: "js_div (Num (4974073419394997 / 8796093022208)) (Num 180) = Num (884279719003555 / 281474976710656)"
    by (rule js_div_eqI [where e = 1 and n = 7074237752028440]) (simp_all add: pow2_neg)
  have h1: "js_div (Num (- (5030569068109113 / 18014398509481984))) (Num 2) = Num (- (5030569068109113 / 36028797018963968))"
    by (rule js_div_eqI [where e = "- 3" and n = "- 5030569068109113"]) (simp_all add: pow2_neg)
  have h2: "js_div (Num (884279719003555 / 281474976710656)) (Num 2) = Num (884279719003555 / 562949953421312)"
    by (rule js_div_eqI [where e = 0 and n = 7074237752028440]) (simp_all add: pow2_neg)
  have t1: "js_mul (Num (- (5014239404989977 / 36028797018963968))) (Num (- (5014239404989977 / 36028797018963968))) = Num (1395694493897217 / 72057594037927936)"
    by (rule js_mul_eqI [where e = "- 6" and n = 5582777975588868]) (simp_all add: pow2_neg)
  have t2: "js_mul (Num (4459770905381437 / 4503599627370496)) (Num (4459770905381437 / 4503599627370496)) = Num (8832737443003841 / 9007199254740992)"
    by (rule js_mul_eqI [where e = "- 1" and n = 8832737443003841]) (simp_all add: pow2_neg)
  have t3: "js_mul (Num (8832737443003841 / 9007199254740992)) (Num 1) = Num (8832737443003841 / 9007199254740992)"
    by (rule js_mul_eqI [where e = "- 1" and n = 8832737443003841]) (simp_all add: pow2_neg)
  have t4: "js_mul (Num (8832737443003841 / 9007199254740992)) (Num 1) = Num (8832737443003841 / 9007199254740992)"
    by (rule js_mul_eqI [where e = "- 1" and n = 8832737443003841]) (simp_all add: pow2_neg)
  have a: "js_add (Num (1395694493897217 / 72057594037927936)) (Num (8832737443003841 / 9007199254740992)) = Num (4503599627370497 / 4503599627370496)"
    by (rule js_add_eqI [where e = 0 and n = 4503599627370497]) (simp_all add: pow2_neg)
  have u: "js_sub (Num 1) (Num (4503599627370497 / 4503599627370496)) = Num (- (1 / 4503599627370496))"
    by (rule js_sub_eqI [where e = "- 52" and n = "- 4503599627370496"]) (simp_all add: pow2_neg)
  have sq: "Math_sqrt M (Num (- (1 / 4503599627370496))) = NaN" by simp
  show ?thesis
    unfolding calculateDistance_def Let_def Math_PI_def
    by (simp only: Point.select_convs m1 phi1 m2 phi2 d1 m3 dphi d2 m4 dlam h1 h2
        Math_sin.simps Math_cos.simps assms t1 t2 t3 a u sq Math_atan2.simps
        js_mul.simps(2,3))
qed

text \<open>
  C4. The claim is right about the route and the formula, and the code does not
  deliver the distance at every pair of points. For the antipodal points 8 N 0 E
  and 8 S 180 E and every failure of the routing call that the claim lists, the
  fallback sets the route to the two points, latitude first, and sets both the
  distance and the duration to \<open>NaN\<close>, in road mode and in walking mode; the
  haversine distance between the two points is \<open>6371000 \<pi>\<close> metres. The hypotheses
  on the engine state the four values of \<open>Math.sin\<close> and \<open>Math.cos\<close> that the
  computation reads; they are the correctly rounded ones.
\<close>

theorem fallback_distance_is_NaN_at_antipodes:
  assumes "m_sin M (- (5030569068109113 / 36028797018963968))
             = - (5014239404989977 / 36028797018963968)"
    and "m_cos M (5030569068109113 / 36028797018963968)
             = 4459770905381437 / 4503599627370496"
    and "m_cos M (- (5030569068109113 / 36028797018963968))
             = 4459770905381437 / 4503599627370496"
    and "m_sin M (884279719003555 / 562949953421312) = 1"
    and "startPoint s = Some \<lparr>longitude = Num 0, latitude = Num 8\<rparr>"
    and "endPoint s = Some \<lparr>longitude = Num 180, latitude = Num (- 8)\<rparr>"
    and "spec_routing_failed r"
  shows "routeCoordinates (getRoute M r s) = Some [(Num 8, Num 0), (Num (- 8), Num 180)] \<and>
         routeInfo (getRoute M r s)
           = Some \<lparr>RouteInfo.duration = NaN, RouteInfo.distance = NaN\<rparr> \<and>
         spec_haversine 6371000 (8, 0) (- 8, 180) = 6371000 * pi"
proof -
  from assms(7) obtain err where err: "fetchOsrmRoute r = Inl err"
    using fetchOsrmRoute_failed by blast
  have d: "calculateDistance M \<lparr>longitude = Num 0, latitude = Num 8\<rparr>
             \<lparr>longitude = Num 180, latitude = Num (- 8)\<rparr> = NaN"
    by (rule calculateDistance_antipodes [OF assms(1-4)])
  from getRoute_fallback [OF assms(5,6) err, of M] d spec_haversine_antipodes [of 6371000]
  show ?thesis by (simp add: lit_def split: route_type.splits)
qed

theorem fallback_distance_is_NaN_at_antipodes_witness:
  "spec_routing_failed Aborted \<and>
   routeCoordinates (getRoute ex_math Aborted (ex_page road))
     = Some [(Num 8, Num 0), (Num (- 8), Num 180)] \<and>
   routeInfo (getRoute ex_math Aborted (ex_page road))
     = Some \<lparr>RouteInfo.duration = NaN, RouteInfo.distance = NaN\<rparr> \<and>
   routeInfo (getRoute ex_math (HttpResponse True (Some (OsrmJson (Some [])))) (ex_page walking))
     = Some \<lparr>RouteInfo.duration = NaN, RouteInfo.distance = NaN\<rparr>"
  using fallback_distance_is_NaN_at_antipodes [of ex_math "ex_page road" Aborted]
    fallback_distance_is_NaN_at_antipodes
      [of ex_math "ex_page walking" "HttpResponse True (Some (OsrmJson (Some [])))"]
  by (simp add: ex_math_def ex_page_def ex_start_def ex_end_def page0_def
      rnd_sin_x0 rnd_cos_x0 rnd_sin_xh)

subsection \<open>Suggestions\<close>

lemma length_trim: "length (trim q) \<le> length q"
proof -
  have "length (trim q) \<le> length (dropWhile is_js_space q)"
    unfolding trim_def
    using length_dropWhile_le [of is_js_space "rev (dropWhile is_js_space q)"] by simp
  also have "\<dots> \<le> length q" by (rule length_dropWhile_le)
  finally show ?thesis .
qed

lemma run_snoc: "run b (evs @ [ev]) = step (run b evs) ev"
  by (simp add: run_def)

lemma settle_suggestions:
  "searchSuggestions (getSuggestions_settle r p) =
     (case r of HttpResponse True (Some d) \<Rightarrow> d | _ \<Rightarrow> [])"
  by (cases "(r, p)" rule: getSuggestions_settle.cases)
    (auto split: bool.splits option.splits)

text \<open>
  C7, as the claim states it, fails in its first half: the query \<open>" a"\<close> has the
  trimmed form \<open>"a"\<close> of one character, and a request is issued for it. The guard
  tests the length of the query as typed, not of its trimmed form.
\<close>

theorem short_trimmed_query_is_requested_counterexample:
  "length (trim '' a'') < 2 \<and> snd (getSuggestions_start '' a'' page0) = Some '' a''"
  by (simp add: getSuggestions_start_def trim_def is_js_space_def)

text \<open>
  C7, amended. A query that is empty after trimming, or that has fewer than 2
  characters as typed, clears the suggestion list and hides the panel, and no request
  is issued. Every other query issues a request for it; in particular every query
  whose trimmed form has 2 characters or more.
\<close>

theorem getSuggestions_guard:
  "((trim q = [] \<or> length q < 2) \<longrightarrow>
      getSuggestions_start q s
        = (s\<lparr>searchSuggestions := [], showSuggestions := False\<rparr>, None)) \<and>
   ((trim q \<noteq> [] \<and> 2 \<le> length q) \<longrightarrow>
      getSuggestions_start q s = (s\<lparr>isSearching := True\<rparr>, Some q)) \<and>
   (2 \<le> length (trim q) \<longrightarrow> snd (getSuggestions_start q s) = Some q)"
  using length_trim [of q]
  by (auto simp add: getSuggestions_start_def)

theorem getSuggestions_guard_witness:
  "getSuggestions_start ''a'' page0
     = (page0\<lparr>searchSuggestions := [], showSuggestions := False\<rparr>, None) \<and>
   getSuggestions_start ''  '' page0
     = (page0\<lparr>searchSuggestions := [], showSuggestions := False\<rparr>, None) \<and>
   getSuggestions_start ''ab'' page0 = (page0\<lparr>isSearching := True\<rparr>, Some ''ab'')"
  using getSuggestions_guard [of "''a''" page0] getSuggestions_guard [of "''  ''" page0]
    getSuggestions_guard [of "''ab''" page0]
  by (simp add: trim_def is_js_space_def)

text \<open>
  C5, as the claim states it, fails. The user types \<open>ab\<close>, its timer fires and its
  request goes out; the user types \<open>abc\<close>, its timer fires and its request goes out.
  The request for \<open>abc\<close> settles first: \<open>ab\<close> is still in flight and the page shows
  the result for \<open>abc\<close>. Then the request for \<open>ab\<close> settles: the query is still
  \<open>abc\<close>, and the page shows the result for \<open>ab\<close>.
\<close>

theorem stale_suggestions_overwrite_counterexample:
  "inflight (run browser0
       [InputChange ''ab'', TimerFires, InputChange ''abc'', TimerFires,
        Settles 1 (HttpResponse True (Some [sug ''abc'']))]) = [''ab''] \<and>
   searchSuggestions (page (run browser0
       [InputChange ''ab'', TimerFires, InputChange ''abc'', TimerFires,
        Settles 1 (HttpResponse True (Some [sug ''abc'']))])) = [sug ''abc''] \<and>
   searchQuery (page (run browser0
       [InputChange ''ab'', TimerFires, InputChange ''abc'', TimerFires,
        Settles 1 (HttpResponse True (Some [sug ''abc''])),
        Settles 0 (HttpResponse True (Some [sug ''ab'']))])) = ''abc'' \<and>
   searchSuggestions (page (run browser0
       [InputChange ''ab'', TimerFires, InputChange ''abc'', TimerFires,
        Settles 1 (HttpResponse True (Some [sug ''abc''])),
        Settles 0 (HttpResponse True (Some [sug ''ab'']))])) = [sug ''ab''] \<and>
   sug ''ab'' \<noteq> sug ''abc''"
  by (simp add: run_def browser0_def page0_def getSuggestions_start_def trim_def
      is_js_space_def sug_def)

text \<open>
  C5, amended. Responses are applied in the order in which they arrive: after any
  sequence of events, when a request in flight settles, the displayed suggestions
  become the result of that request (the list of a 2xx JSON answer, the empty list
  for every other outcome), whichever query it was sent for and whatever else is in
  flight.
\<close>

theorem last_settled_response_is_displayed:
  assumes "k < length (inflight (run b evs))"
  shows "searchSuggestions (page (run b (evs @ [Settles k r]))) =
           (case r of HttpResponse True (Some d) \<Rightarrow> d | _ \<Rightarrow> [])"
  using assms by (simp add: run_snoc settle_suggestions)

theorem last_settled_response_is_displayed_witness:
  "searchSuggestions (page (run browser0
      ([InputChange ''ab'', TimerFires, InputChange ''abc'', TimerFires,
        Settles 1 (HttpResponse True (Some [sug ''abc'']))] @
       [Settles 0 (HttpResponse True (Some [sug ''ab'']))]))) = [sug ''ab'']"
proof -
  have "0 < length (inflight (run browser0
      [InputChange ''ab'', TimerFires, InputChange ''abc'', TimerFires,
       Settles 1 (HttpResponse True (Some [sug ''abc'']))]))"
    by (simp add: run_def browser0_def page0_def getSuggestions_start_def trim_def
        is_js_space_def)
  from last_settled_response_is_displayed [OF this, of "HttpResponse True (Some [sug ''ab''])"]
  show ?thesis by simp
qed

subsection \<open>Recent searches\<close>

text \<open>
  C9. After \<open>saveRecentSearch(query)\<close> the list is the query followed by the first
  four of the old entries other than the query, in their old order. So the query is
  at the front and occurs nowhere else; the list has at most 5 entries; it is no
  longer than before when the query was already in it; when the query is new and the
  list held 5 entries, the last (oldest) one is dropped, and when it held fewer, none
  is. The same list is written to \<open>localStorage\<close>.
\<close>

theorem saveRecentSearch_bounded_front_insert:
  "recentSearches (saveRecentSearch q s)
     = q # take 4 (filter (\<lambda>x. x \<noteq> q) (recentSearches s)) \<and>
   q \<notin> set (tl (recentSearches (saveRecentSearch q s))) \<and>
   length (recentSearches (saveRecentSearch q s)) \<le> 5 \<and>
   (q \<in> set (recentSearches s) \<longrightarrow>
      length (recentSearches (saveRecentSearch q s)) \<le> length (recentSearches s)) \<and>
   (q \<notin> set (recentSearches s) \<and> length (recentSearches s) = 5 \<longrightarrow>
      recentSearches (saveRecentSearch q s) = q # butlast (recentSearches s)) \<and>
   (q \<notin> set (recentSearches s) \<and> length (recentSearches s) < 5 \<longrightarrow>
      recentSearches (saveRecentSearch q s) = q # recentSearches s) \<and>
   localStorage (saveRecentSearch q s) ''recentSearches''
     = Some (recentSearches (saveRecentSearch q s))"
proof -
  let ?rs = "recentSearches s"
  let ?u = "recentSearches (saveRecentSearch q s)"
  let ?f = "filter (\<lambda>x. x \<noteq> q) ?rs"
  have u: "?u = q # take 4 ?f"
    by (simp add: saveRecentSearch_def Let_def take_Cons')
  have notin: "q \<notin> set (take 4 ?f)"
    using set_take_subset [of 4 ?f] by auto
  have len: "length ?u \<le> 5" by (simp add: u)
  have dup: "length ?u \<le> length ?rs" if "q \<in> set ?rs"
  proof -
    from that have "length ?f < length ?rs" by (rule length_filter_less) simp
    then show ?thesis by (simp add: u)
  qed
  have keep: "?f = ?rs" if "q \<notin> set ?rs"
    using that by (auto simp add: filter_id_conv)
  have full: "?u = q # butlast ?rs" if "q \<notin> set ?rs" "length ?rs = 5"
    using that keep by (simp add: u butlast_conv_take)
  have short: "?u = q # ?rs" if "q \<notin> set ?rs" "length ?rs < 5"
    using that keep by (simp add: u)
  have ls: "localStorage (saveRecentSearch q s) ''recentSearches'' = Some ?u"
    by (simp add: saveRecentSearch_def Let_def)
  from u notin len dup full short ls show ?thesis by simp
qed

theorem saveRecentSearch_bounded_front_insert_witness:
  "recentSearches (saveRecentSearch ''f''
      (page0\<lparr>recentSearches := [''a'', ''b'', ''c'', ''d'', ''e'']\<rparr>))
     = [''f'', ''a'', ''b'', ''c'', ''d''] \<and>
   recentSearches (saveRecentSearch ''c''
      (page0\<lparr>recentSearches := [''a'', ''b'', ''c'', ''d'', ''e'']\<rparr>))
     = [''c'', ''a'', ''b'', ''d'', ''e'']"
  using saveRecentSearch_bounded_front_insert
      [of "''f''" "page0\<lparr>recentSearches := [''a'', ''b'', ''c'', ''d'', ''e'']\<rparr>"]
    saveRecentSearch_bounded_front_insert
      [of "''c''" "page0\<lparr>recentSearches := [''a'', ''b'', ''c'', ''d'', ''e'']\<rparr>"]
  by simp

end
